theory Spec2Isabelle
  imports Complex_Main "HOL-Library.Word" "HOL-Library.AList"
begin

unbundle bit_operations_syntax

section \<open>Script values and bridge results\<close>

text \<open>
  The values a script hands to a bridge function of \<^verbatim>\<open>esengine.go\<close> (the second,
  current definition of \<^verbatim>\<open>ESEngine\<close> in that file), as the Duktape value stack
  classifies them.  Arrays, functions and plain objects are all objects for
  \<^verbatim>\<open>IsObject\<close>; each carries its named properties as an association list.
  A number is a float64; the model uses \<^typ>\<open>real\<close>, so NaN and the infinities are
  outside it.
\<close>

datatype jsval =
    JSUndefined
  | JSNull
  | JSBoolean bool
  | JSNumber real
  | JSString string
  | JSFunction nat "(string \<times> jsval) list"
  | JSArray "jsval list" "(string \<times> jsval) list"
  | JSObject "(string \<times> jsval) list"

fun IsString :: "jsval \<Rightarrow> bool" where
  "IsString (JSString _) = True"
| "IsString _ = False"

fun IsNumber :: "jsval \<Rightarrow> bool" where
  "IsNumber (JSNumber _) = True"
| "IsNumber _ = False"

fun IsFunction :: "jsval \<Rightarrow> bool" where
  "IsFunction (JSFunction _ _) = True"
| "IsFunction _ = False"

fun IsArray :: "jsval \<Rightarrow> bool" where
  "IsArray (JSArray _ _) = True"
| "IsArray _ = False"

fun IsObject :: "jsval \<Rightarrow> bool" where
  "IsObject (JSFunction _ _) = True"
| "IsObject (JSArray _ _) = True"
| "IsObject (JSObject _) = True"
| "IsObject _ = False"

fun props :: "jsval \<Rightarrow> (string \<times> jsval) list" where
  "props (JSFunction _ ps) = ps"
| "props (JSArray _ ps) = ps"
| "props (JSObject ps) = ps"
| "props _ = []"

definition HasPropString :: "jsval \<Rightarrow> string \<Rightarrow> bool" where
  "HasPropString v name = (map_of (props v) name \<noteq> None)"

definition GetPropString :: "jsval \<Rightarrow> string \<Rightarrow> jsval" where
  "GetPropString v name = (case map_of (props v) name of None \<Rightarrow> JSUndefined | Some x \<Rightarrow> x)"

fun ToBoolean :: "jsval \<Rightarrow> bool" where
  "ToBoolean JSUndefined = False"
| "ToBoolean JSNull = False"
| "ToBoolean (JSBoolean b) = b"
| "ToBoolean (JSNumber x) = (x \<noteq> 0)"
| "ToBoolean (JSString s) = (s \<noteq> [])"
| "ToBoolean _ = True"

text \<open>
  What a bridge function hands back to Duktape: \<^verbatim>\<open>return 0\<close> (the script sees
  undefined), \<^verbatim>\<open>return 1\<close> with the value left on top of the stack, or one of the
  negative \<^verbatim>\<open>DUK_RET_*\<close> codes, which Duktape turns into a thrown error.
  \<open>Throws_SyntaxError\<close> is the error Duktape itself throws inside \<^verbatim>\<open>JsonDecode\<close>.
\<close>

datatype duk_ret =
    Return0
  | Return1 jsval
  | DUK_RET_ERROR
  | DUK_RET_TYPE_ERROR
  | Throws_SyntaxError

section \<open>Rule conditions and rules\<close>

datatype CellSpec = CellSpec string string

text \<open>
  The condition objects a rule definition is compiled to.  Besides what the
  constructor call in \<^verbatim>\<open>esengine.go\<close> passes (a wrapped script function, a cell, a
  list of conditions, a cron string) a condition carries the value it saw last.
\<close>

datatype RuleCondition =
    LevelTriggered jsval
  | EdgeTriggered jsval bool
  | CellChanged CellSpec "jsval option"
  | FuncValueChanged jsval "jsval option"
  | OrRule "RuleCondition list"
  | Cron string

text \<open>The errors \<^verbatim>\<open>buildRule\<close> and the functions under it create, one per message.\<close>

datatype rule_error =
    Err_no_then
  | Err_combine_when
  | Err_combine_asSoonAs
  | Err_combine_whenChanged_cron
  | Err_no_trigger
  | Err_invalid_whenChanged_spec string
  | Err_whenChanged_array_expected

text \<open>
  Modelled from the spec: the constructors of \<^verbatim>\<open>rules.go\<close>, which is not among the
  sources.  Each builds the condition of its kind with nothing seen yet; the one for a
  changed cell returns an error as a second result, and the spec describes no way for
  it to fail.
\<close>

definition NewLevelTriggeredRuleCondition :: "jsval \<Rightarrow> RuleCondition" where
  "NewLevelTriggeredRuleCondition f = LevelTriggered f"

definition NewEdgeTriggeredRuleCondition :: "jsval \<Rightarrow> RuleCondition" where
  "NewEdgeTriggeredRuleCondition f = EdgeTriggered f False"

definition NewCellChangedRuleCondition :: "CellSpec \<Rightarrow> rule_error + RuleCondition" where
  "NewCellChangedRuleCondition spec = Inr (CellChanged spec None)"

definition NewFuncValueChangedRuleCondition :: "jsval \<Rightarrow> RuleCondition" where
  "NewFuncValueChangedRuleCondition f = FuncValueChanged f None"

definition NewOrRuleCondition :: "RuleCondition list \<Rightarrow> RuleCondition" where
  "NewOrRuleCondition conds = OrRule conds"

definition NewCronRuleCondition :: "string \<Rightarrow> RuleCondition" where
  "NewCronRuleCondition spec = Cron spec"

datatype Rule = Rule (rule_id: nat) (rule_name: string) (rule_cond: RuleCondition) (rule_then: jsval)

definition NewRule :: "nat \<Rightarrow> string \<Rightarrow> RuleCondition \<Rightarrow> jsval \<Rightarrow> Rule" where
  "NewRule ruleId name cond then_cb = Rule ruleId name cond then_cb"

fun GetString :: "jsval \<Rightarrow> string" where
  "GetString (JSString s) = s"
| "GetString _ = []"

text \<open>\<^verbatim>\<open>strings.SplitN(s, "/", 2)\<close>: cut at the first slash, if there is one.\<close>

definition SplitN_slash_2 :: "string \<Rightarrow> string list" where
  "SplitN_slash_2 s =
     (if CHR ''/'' \<in> set s
      then [takeWhile (\<lambda>c. c \<noteq> CHR ''/'') s, tl (dropWhile (\<lambda>c. c \<noteq> CHR ''/'') s)]
      else [s])"

definition buildSingleWhenChangedRuleCondition :: "jsval \<Rightarrow> rule_error + RuleCondition" where
  "buildSingleWhenChangedRuleCondition v =
     (if IsString v then
        (let cellFullName = GetString v;  \<comment> \<open>\<^verbatim>\<open>SafeToString\<close> of a string\<close>
             parts = SplitN_slash_2 cellFullName
         in if length parts \<noteq> 2
            then Inl (Err_invalid_whenChanged_spec cellFullName)
            else NewCellChangedRuleCondition (CellSpec (parts ! 0) (parts ! 1)))
      else if IsFunction v then Inr (NewFuncValueChangedRuleCondition v)
      else Inl Err_whenChanged_array_expected)"

text \<open>The loop over the elements of a \<^verbatim>\<open>whenChanged\<close> array: the first error ends it.\<close>

fun buildWhenChangedConds :: "jsval list \<Rightarrow> rule_error + RuleCondition list" where
  "buildWhenChangedConds [] = Inr []"
| "buildWhenChangedConds (x # xs) =
     (case buildSingleWhenChangedRuleCondition x of
        Inl err \<Rightarrow> Inl err
      | Inr c \<Rightarrow>
          (case buildWhenChangedConds xs of
             Inl err \<Rightarrow> Inl err
           | Inr conds \<Rightarrow> Inr (c # conds)))"

fun array_elems :: "jsval \<Rightarrow> jsval list" where
  "array_elems (JSArray xs _) = xs"
| "array_elems _ = []"

definition buildWhenChangedRuleCondition :: "jsval \<Rightarrow> rule_error + RuleCondition" where
  "buildWhenChangedRuleCondition def =
     (let wc = GetPropString def ''whenChanged'' in
      if \<not> IsArray wc then buildSingleWhenChangedRuleCondition wc
      else case buildWhenChangedConds (array_elems wc) of
             Inl err \<Rightarrow> Inl err
           | Inr conds \<Rightarrow> Inr (NewOrRuleCondition conds))"

definition wrapRuleCallback :: "jsval \<Rightarrow> string \<Rightarrow> jsval" where
  "wrapRuleCallback def propName = GetPropString def propName"

definition wrapRuleCondFunc :: "jsval \<Rightarrow> string \<Rightarrow> jsval" where
  "wrapRuleCondFunc def defProp = wrapRuleCallback def defProp"

text \<open>
  \<^verbatim>\<open>SafeToString\<close> of a string is the string; what Duktape makes of any other value is
  passed in as \<open>coerce\<close>.
\<close>

definition SafeToString :: "(jsval \<Rightarrow> string) \<Rightarrow> jsval \<Rightarrow> string" where
  "SafeToString coerce v = (case v of JSString s \<Rightarrow> s | _ \<Rightarrow> coerce v)"

definition buildRuleCond :: "(jsval \<Rightarrow> string) \<Rightarrow> jsval \<Rightarrow> rule_error + RuleCondition" where
  "buildRuleCond coerce def =
     (let hasWhen = HasPropString def ''when'';
          hasAsSoonAs = HasPropString def ''asSoonAs'';
          hasWhenChanged = HasPropString def ''whenChanged'';
          hasCron = HasPropString def ''_cron''
      in if hasWhen \<and> (hasAsSoonAs \<or> hasWhenChanged \<or> hasCron) then
           Inl Err_combine_when
         else if hasWhen then
           Inr (NewLevelTriggeredRuleCondition (wrapRuleCondFunc def ''when''))
         else if hasAsSoonAs \<and> (hasWhenChanged \<or> hasCron) then
           Inl Err_combine_asSoonAs
         else if hasAsSoonAs then
           Inr (NewEdgeTriggeredRuleCondition (wrapRuleCondFunc def ''asSoonAs''))
         else if hasWhenChanged \<and> hasCron then
           Inl Err_combine_whenChanged_cron
         else if hasWhenChanged then buildWhenChangedRuleCondition def
         else if hasCron then
           Inr (NewCronRuleCondition (SafeToString coerce (GetPropString def ''_cron'')))
         else Inl Err_no_trigger)"

text \<open>
  \<^verbatim>\<open>buildRule\<close> reads and advances \<^verbatim>\<open>engine.nextRuleId\<close>; the counter is passed
  in and returned.
\<close>

definition buildRule ::
  "(jsval \<Rightarrow> string) \<Rightarrow> nat \<Rightarrow> string \<Rightarrow> jsval \<Rightarrow> (rule_error + Rule) \<times> nat" where
  "buildRule coerce nextRuleId name def =
     (if \<not> HasPropString def ''then'' then (Inl Err_no_then, nextRuleId)
      else let then_cb = wrapRuleCallback def ''then'' in
        case buildRuleCond coerce def of
          Inl err \<Rightarrow> (Inl err, nextRuleId)
        | Inr cond \<Rightarrow> (Inr (NewRule nextRuleId name cond then_cb), nextRuleId + 1))"

text \<open>
  Calls into collaborators whose code is not part of \<^verbatim>\<open>esengine.go\<close> (the embedded
  \<^verbatim>\<open>RuleEngine\<close>, the loggers) are recorded, in order, as a trace.  What such a
  call returns is an argument of the model.  The \<^verbatim>\<open>wbgo.Debug.Printf\<close> lines are left
  out.
\<close>

datatype engine_call =
    StopTimerByName string
  | StopTimerByIndex int
  | StartTimer string "jsval option" int bool
  | OnTimerRemoveByIndex int
  | DefineRule Rule
  | Error_Printf string
  | Engine_Log_ERROR string
  | Engine_Log_DEBUG string
  | Log_bad_definition_of_rule string rule_error
  | Log_defineRule_error string

section \<open>Scanning a rule condition\<close>

text \<open>
  Modelled from the spec: how a condition is checked in a scan (the \<^verbatim>\<open>Check\<close> methods
  of \<^verbatim>\<open>rules.go\<close>, which is not among the sources), after the spec's per-rule
  evaluation.  A scan gives, for each cell, whether it is complete, its value and
  whether it is a pushbutton, and for each script function what calling it returns,
  the cells the call touched and whether one of them was incomplete.  A check answers
  the value the rule fires with, if it fires, the cells to index the rule under, and
  the condition with what it has now seen.  For a \<^verbatim>\<open>when\<close> or \<^verbatim>\<open>asSoonAs\<close>
  function the result counts as true when it is the boolean true, as
  \<^verbatim>\<open>wrapRuleCondFunc\<close> has it.
\<close>

record scan =
  complete :: "CellSpec \<Rightarrow> bool"
  cell_value :: "CellSpec \<Rightarrow> jsval"
  pushbutton :: "CellSpec \<Rightarrow> bool"
  call_result :: "jsval \<Rightarrow> jsval \<times> CellSpec list \<times> bool"

fun Check :: "scan \<Rightarrow> RuleCondition \<Rightarrow> jsval option \<times> CellSpec list \<times> RuleCondition"
  and CheckAll :: "scan \<Rightarrow> RuleCondition list \<Rightarrow> jsval option \<times> CellSpec list \<times> RuleCondition list"
where
  "Check e (LevelTriggered f) =
     (let (r, cells, incomplete) = call_result e f
      in (if \<not> incomplete \<and> r = JSBoolean True then Some JSUndefined else None,
          cells, LevelTriggered f))"
| "Check e (EdgeTriggered f lastResult) =
     (let (r, cells, incomplete) = call_result e f
      in if incomplete then (None, cells, EdgeTriggered f lastResult)
         else (if r = JSBoolean True \<and> \<not> lastResult then Some JSUndefined else None,
               cells, EdgeTriggered f (r = JSBoolean True)))"
| "Check e (CellChanged spec lastSeen) =
     (if \<not> complete e spec then (None, [spec], CellChanged spec lastSeen)
      else (if lastSeen \<noteq> Some (cell_value e spec) \<or> pushbutton e spec
            then Some (cell_value e spec) else None,
            [spec], CellChanged spec (Some (cell_value e spec))))"
| "Check e (FuncValueChanged f lastResult) =
     (let (r, cells, incomplete) = call_result e f
      in if incomplete then (None, cells, FuncValueChanged f lastResult)
         else (if lastResult \<noteq> Some r then Some r else None,
               cells, FuncValueChanged f (Some r)))"
| "Check e (OrRule conds) =
     (let (fired, cells, conds') = CheckAll e conds in (fired, cells, OrRule conds'))"
| "Check e (Cron spec) = (None, [], Cron spec)"
| "CheckAll e [] = (None, [], [])"
| "CheckAll e (c # cs) =
     (let (fired, cells, c') = Check e c;
          (fired_rest, cells_rest, cs') = CheckAll e cs
      in (case fired of Some v \<Rightarrow> Some v | None \<Rightarrow> fired_rest, cells @ cells_rest, c' # cs'))"

text \<open>A condition over a sequence of scans: what each scan decides and records.\<close>

fun scans :: "RuleCondition \<Rightarrow> scan list \<Rightarrow> (jsval option \<times> CellSpec list) list" where
  "scans c [] = []"
| "scans c (e # es) = (let (fired, cells, c') = Check e c in (fired, cells) # scans c' es)"

section \<open>Source entries and the rule-definition bridge\<close>

datatype LocItem = LocItem int string

record LocFileEntry =
  VirtualPath :: string
  PhysicalPath :: string
  Devices :: "LocItem list"
  Rules :: "LocItem list"
  Error :: "(string \<times> LocItem list) option"

datatype itemType = SOURCE_ITEM_DEVICE | SOURCE_ITEM_RULE

text \<open>
  \<^verbatim>\<open>maybeRegisterSourceItem\<close>: \<open>traceback\<close> is what \<^verbatim>\<open>ctx.GetTraceback()\<close> returns,
  as (filename, line) pairs in its order; the loop keeps the line of the last frame
  of the current source.
\<close>

definition maybeRegisterSourceItem ::
  "(string \<times> int) list \<Rightarrow> itemType \<Rightarrow> string \<Rightarrow> LocFileEntry option \<Rightarrow> LocFileEntry option" where
  "maybeRegisterSourceItem traceback typ name currentSource =
     (case currentSource of
        None \<Rightarrow> None
      | Some cs \<Rightarrow>
          (let line = fold (\<lambda>loc line. if fst loc = PhysicalPath cs then snd loc else line)
                        traceback (- 1)
           in if line = - 1 then Some cs
              else (case typ of
                      SOURCE_ITEM_DEVICE \<Rightarrow> Some (cs\<lparr>Devices := Devices cs @ [LocItem line name]\<rparr>)
                    | SOURCE_ITEM_RULE \<Rightarrow> Some (cs\<lparr>Rules := Rules cs @ [LocItem line name]\<rparr>))))"

text \<open>
  \<^verbatim>\<open>esWbDefineRule\<close>.  \<open>args\<close> is the value stack on entry, \<open>currentFilename\<close> what
  \<^verbatim>\<open>ctx.GetCurrentFilename()\<close> returns, and \<open>defineRule\<close> what
  \<^verbatim>\<open>engine.DefineRule\<close> (of the embedded \<^verbatim>\<open>RuleEngine\<close>, not among the sources)
  answers for a rule: an error, or the id of the registered rule.  The result is the
  return code, the calls made, \<^verbatim>\<open>nextRuleId\<close> and \<^verbatim>\<open>currentSource\<close>.
\<close>

definition defineRule_shape :: "string \<Rightarrow> jsval list \<Rightarrow> (nat \<times> string \<times> string) option" where
  "defineRule_shape currentFilename args =
     (if length args = 1 then
        (if IsObject (args ! 0) then Some (0, [], []) else None)
      else if length args = 2 then
        (if IsString (args ! 0) \<and> IsObject (args ! 1)
         then Some (1, GetString (args ! 0), currentFilename @ ''/'' @ GetString (args ! 0))
         else None)
      else None)"

definition esWbDefineRule ::
  "(jsval \<Rightarrow> string) \<Rightarrow> string \<Rightarrow> (string \<times> int) list \<Rightarrow> (Rule \<Rightarrow> string + nat) \<Rightarrow>
   nat \<Rightarrow> LocFileEntry option \<Rightarrow> jsval list \<Rightarrow>
   duk_ret \<times> engine_call list \<times> nat \<times> LocFileEntry option" where
  "esWbDefineRule coerce currentFilename traceback defineRule nextRuleId currentSource args =
     (case defineRule_shape currentFilename args of
        None \<Rightarrow>
          (DUK_RET_ERROR, [Engine_Log_ERROR ''bad rule definition''], nextRuleId, currentSource)
      | Some (objIndex, shortName, name) \<Rightarrow>
          (case buildRule coerce nextRuleId name (args ! objIndex) of
             (Inl err, nextRuleId') \<Rightarrow>
               (DUK_RET_ERROR, [Log_bad_definition_of_rule name err], nextRuleId', currentSource)
           | (Inr rule, nextRuleId') \<Rightarrow>
               (case defineRule rule of
                  Inl err \<Rightarrow>
                    (DUK_RET_ERROR, [DefineRule rule, Log_defineRule_error err],
                     nextRuleId', currentSource)
                | Inr ruleId \<Rightarrow>
                    (Return1 (JSNumber (real ruleId)), [DefineRule rule], nextRuleId',
                     maybeRegisterSourceItem traceback SOURCE_ITEM_RULE shortName currentSource))))"

section \<open>The claimed validity of a rule definition\<close>

text \<open>
  The spec's account of an invalid rule definition, in its words, to compare
  \<^verbatim>\<open>buildRule\<close> with: no \<^verbatim>\<open>then\<close>; \<^verbatim>\<open>when\<close> together with \<^verbatim>\<open>asSoonAs\<close>,
  \<^verbatim>\<open>whenChanged\<close> or a cron spec; \<^verbatim>\<open>asSoonAs\<close> together with \<^verbatim>\<open>whenChanged\<close> or a
  cron spec; \<^verbatim>\<open>whenChanged\<close> together with a cron spec; none of the four; or a
  malformed \<^verbatim>\<open>whenChanged\<close>: a string without a slash, or an element that is neither
  a string nor a function.
\<close>

definition whenChanged_item_malformed :: "jsval \<Rightarrow> bool" where
  "whenChanged_item_malformed v =
     (case v of
        JSString s \<Rightarrow> CHR ''/'' \<notin> set s
      | JSFunction f ps \<Rightarrow> False
      | _ \<Rightarrow> True)"

definition whenChanged_malformed :: "jsval \<Rightarrow> bool" where
  "whenChanged_malformed wc =
     (case wc of
        JSArray xs ps \<Rightarrow> list_ex whenChanged_item_malformed xs
      | _ \<Rightarrow> whenChanged_item_malformed wc)"

definition invalid_rule_definition :: "jsval \<Rightarrow> bool" where
  "invalid_rule_definition def =
     (let hasWhen = HasPropString def ''when'';
          hasAsSoonAs = HasPropString def ''asSoonAs'';
          hasWhenChanged = HasPropString def ''whenChanged'';
          hasCron = HasPropString def ''_cron''
      in \<not> HasPropString def ''then''
         \<or> (hasWhen \<and> (hasAsSoonAs \<or> hasWhenChanged \<or> hasCron))
         \<or> (hasAsSoonAs \<and> (hasWhenChanged \<or> hasCron))
         \<or> (hasWhenChanged \<and> hasCron)
         \<or> (\<not> hasWhen \<and> \<not> hasAsSoonAs \<and> \<not> hasWhenChanged \<and> \<not> hasCron)
         \<or> (hasWhenChanged \<and> whenChanged_malformed (GetPropString def ''whenChanged'')))"

text \<open>
  A \<^verbatim>\<open>DefineRule\<close> that refuses the rule it is given, and one that registers it under
  the id the rule carries: the two answers \<^verbatim>\<open>esWbDefineRule\<close> provides for.
\<close>

definition DefineRule_refusing :: "Rule \<Rightarrow> string + nat" where
  "DefineRule_refusing rule = Inl ''rule refused''"

definition DefineRule_accepting :: "Rule \<Rightarrow> string + nat" where
  "DefineRule_accepting rule = Inr (rule_id rule)"

section \<open>Timers\<close>

text \<open>
  Modelled from the spec: \<^verbatim>\<open>NO_TIMER_NAME\<close>, a constant declared outside
  \<^verbatim>\<open>esengine.go\<close>: an anonymous timer has no name, and a named one a non-empty name.
\<close>

definition NO_TIMER_NAME :: string where
  "NO_TIMER_NAME = []"

definition MIN_INTERVAL_MS :: real where
  "MIN_INTERVAL_MS = 1"

text \<open>\<^verbatim>\<open>float64(time.Millisecond)\<close>: a \<^verbatim>\<open>time.Duration\<close> counts nanoseconds.\<close>

definition Millisecond :: real where
  "Millisecond = 1000000"

text \<open>
  A float64 is modelled by the real number it stands for; NaN and the infinities are
  outside the model.  The product of two float64 values is the exact product rounded to
  the nearest number of 53 significant bits, a tie going to the even one.  Underflow
  does not arise for the products formed here, and a product too large for a float64
  is, like every value of \<open>2^63\<close> or more, beyond what a \<^verbatim>\<open>time.Duration\<close> holds.
\<close>

definition round_half_even :: "real \<Rightarrow> int" where
  "round_half_even x =
     (let f = \<lfloor>x\<rfloor>; r = x - of_int f
      in if r < 1 / 2 then f else if 1 / 2 < r then f + 1 else if even f then f else f + 1)"

definition float64_round :: "real \<Rightarrow> real" where
  "float64_round x =
     (if x = 0 then 0
      else (let e = \<lfloor>log 2 \<bar>x\<bar>\<rfloor>; q = 2 powr (of_int e - 52)
            in of_int (round_half_even (x / q)) * q))"

definition float64_mul :: "real \<Rightarrow> real \<Rightarrow> real" where
  "float64_mul x y = float64_round (x * y)"

text \<open>
  Go discards the fraction of a float64 converted to an integer type: it truncates
  toward zero.  Where the value does not fit the type the result depends on the
  platform, and is left to \<open>outside\<close>.  A \<^verbatim>\<open>time.Duration\<close> is an int64.  The
  declaration of \<^verbatim>\<open>TimerId\<close> is not among the sources: every integer type holds 0,
  and one of 32 bits or more holds the integers from 0 up to \<open>2^31\<close>, so the conversion
  is known for a number above \<open>-1\<close> and below \<open>2^31\<close>.
\<close>

definition truncate_toward_zero :: "real \<Rightarrow> int" where
  "truncate_toward_zero x = (if 0 \<le> x then \<lfloor>x\<rfloor> else \<lceil>x\<rceil>)"

definition Duration_of_float64 :: "(real \<Rightarrow> 64 word) \<Rightarrow> real \<Rightarrow> int" where
  "Duration_of_float64 outside x =
     (if - (2 ^ 63) - 1 < x \<and> x < 2 ^ 63 then truncate_toward_zero x else sint (outside x))"

definition TimerId_of_float64 :: "(real \<Rightarrow> int) \<Rightarrow> real \<Rightarrow> int" where
  "TimerId_of_float64 outside x =
     (if - 1 < x \<and> x < 2 ^ 31 then truncate_toward_zero x else outside x)"

text \<open>
  What the conversion instruction of amd64 answers for a value no int64 holds, to run
  the functions on a concrete platform.
\<close>

definition int64_indefinite :: "real \<Rightarrow> 64 word" where
  "int64_indefinite x = 2 ^ 63"

fun GetNumber :: "jsval \<Rightarrow> real" where
  "GetNumber (JSNumber x) = x"
| "GetNumber _ = 0"

text \<open>
  \<^verbatim>\<open>engine.ctxTimers\<close> maps a script context to its \<^verbatim>\<open>TimerSet\<close>, a
  \<^verbatim>\<open>map[TimerId]bool\<close>, kept here as an association list.
\<close>

type_synonym TimerSet = "(int \<times> bool) list"

definition handleTimerCleanup ::
  "nat \<Rightarrow> int \<Rightarrow> (nat \<rightharpoonup> TimerSet) \<Rightarrow> (nat \<rightharpoonup> TimerSet) \<times> engine_call list" where
  "handleTimerCleanup ctx timer ctxTimers =
     (let s = (case ctxTimers ctx of None \<Rightarrow> [] | Some s \<Rightarrow> s)
      in (ctxTimers(ctx \<mapsto> AList.update timer True s), [OnTimerRemoveByIndex timer]))"

text \<open>
  \<^verbatim>\<open>esWbStartTimer\<close>.  \<open>timerId\<close> is what \<^verbatim>\<open>engine.StartTimer\<close> returns; the
  \<^verbatim>\<open>StartTimer\<close> call in the trace carries the name, the callback (for an anonymous
  timer), the interval in nanoseconds and the periodic flag it is given.
\<close>

definition esWbStartTimer ::
  "(real \<Rightarrow> 64 word) \<Rightarrow> nat \<Rightarrow> int \<Rightarrow> (nat \<rightharpoonup> TimerSet) \<Rightarrow> jsval list \<Rightarrow>
   duk_ret \<times> engine_call list \<times> (nat \<rightharpoonup> TimerSet)" where
  "esWbStartTimer outside ctx timerId ctxTimers args =
     (if length args \<noteq> 3 \<or> \<not> IsNumber (args ! 1) then
        (DUK_RET_ERROR, [Error_Printf ''bad _wbStartTimer call''], ctxTimers)
      else if IsString (args ! 0) \<and> GetString (args ! 0) = [] then
        (DUK_RET_ERROR, [Error_Printf ''empty timer name''], ctxTimers)
      else if \<not> IsString (args ! 0) \<and> \<not> IsFunction (args ! 0) then
        (DUK_RET_ERROR, [Error_Printf ''invalid timer spec''], ctxTimers)
      else
        (let name = (if IsString (args ! 0) then GetString (args ! 0) else NO_TIMER_NAME);
             stopped = (if IsString (args ! 0) then [StopTimerByName name] else []);
             ms = GetNumber (args ! 1);
             ms = (if ms < MIN_INTERVAL_MS then MIN_INTERVAL_MS else ms);
             periodic = ToBoolean (args ! 2);
             callback = (if name = NO_TIMER_NAME then Some (args ! 0) else None);
             interval = Duration_of_float64 outside (float64_mul ms Millisecond);
             (ctxTimers', registered) = handleTimerCleanup ctx timerId ctxTimers
         in (Return1 (JSNumber (real_of_int timerId)),
             stopped @ [StartTimer name callback interval periodic] @ registered,
             ctxTimers')))"

text \<open>The intervals of the timers a trace starts.\<close>

fun started_intervals :: "engine_call list \<Rightarrow> int list" where
  "started_intervals [] = []"
| "started_intervals (StartTimer name callback interval periodic # cs) =
     interval # started_intervals cs"
| "started_intervals (c # cs) = started_intervals cs"

definition esWbStopTimer :: "(real \<Rightarrow> int) \<Rightarrow> jsval list \<Rightarrow> duk_ret \<times> engine_call list" where
  "esWbStopTimer outside args =
     (if length args \<noteq> 1 then (DUK_RET_ERROR, [])
      else case args ! 0 of
          JSNumber x \<Rightarrow>
            (let n = TimerId_of_float64 outside x in
             if n = 0 then (Return0, [Error_Printf ''timer id cannot be zero''])
             else (Return0, [StopTimerByIndex n]))
        | JSString s \<Rightarrow> (Return0, [StopTimerByName s])
        | _ \<Rightarrow> (DUK_RET_ERROR, []))"

section \<open>Local object ids\<close>

definition md5_Size :: nat where
  "md5_Size = 16"

text \<open>
  \<^verbatim>\<open>md5.Sum\<close> is the standard library's; it is passed in as \<open>md5_Sum\<close>, and its
  result, a \<^verbatim>\<open>[16]byte\<close>, is read as a function of the index.  The loop of
  \<^verbatim>\<open>getFilenameHash\<close> folds the digest into its first four bytes.
\<close>

definition reduce_hash :: "(nat \<Rightarrow> 8 word) \<Rightarrow> (nat \<Rightarrow> 8 word)" where
  "reduce_hash hash =
     fold (\<lambda>i h. h(i := h i XOR h (md5_Size div 4 + i) XOR h (md5_Size div 2 + i)
                           XOR h (md5_Size * 3 div 4 + i)))
          [0 ..< md5_Size div 4] hash"

text \<open>
  \<^verbatim>\<open>base64.RawURLEncoding.EncodeToString\<close> (standard library): the URL-safe alphabet
  of RFC 4648, six bits per character, no padding.
\<close>

definition encodeURL :: string where
  "encodeURL = ''ABCDEFGHIJKLMNOPQRSTUVWXYZabcdefghijklmnopqrstuvwxyz0123456789-_''"

definition enc64 :: "8 word \<Rightarrow> char" where
  "enc64 w = encodeURL ! unat (w AND 63)"

fun RawURLEncoding_EncodeToString :: "8 word list \<Rightarrow> string" where
  "RawURLEncoding_EncodeToString [] = []"
| "RawURLEncoding_EncodeToString [a] =
     [enc64 (drop_bit 2 a), enc64 (push_bit 4 (a AND 3))]"
| "RawURLEncoding_EncodeToString [a, b] =
     [enc64 (drop_bit 2 a), enc64 (push_bit 4 (a AND 3) OR drop_bit 4 b),
      enc64 (push_bit 2 (b AND 15))]"
| "RawURLEncoding_EncodeToString (a # b # c # rest) =
     [enc64 (drop_bit 2 a), enc64 (push_bit 4 (a AND 3) OR drop_bit 4 b),
      enc64 (push_bit 2 (b AND 15) OR drop_bit 6 c), enc64 c]
     @ RawURLEncoding_EncodeToString rest"

text \<open>
  \<^verbatim>\<open>getFilenameHash\<close>: \<open>filenameMd5s\<close> is the package-level cache, passed in and
  returned.
\<close>

definition getFilenameHash ::
  "(string \<Rightarrow> nat \<Rightarrow> 8 word) \<Rightarrow> (string \<rightharpoonup> string) \<Rightarrow> string \<Rightarrow> string \<times> (string \<rightharpoonup> string)" where
  "getFilenameHash md5_Sum filenameMd5s filename =
     (case filenameMd5s filename of
        Some result \<Rightarrow> (result, filenameMd5s)
      | None \<Rightarrow>
          (let hash = md5_Sum filename;
               hash = reduce_hash hash;
               result = RawURLEncoding_EncodeToString (map hash [0 ..< md5_Size div 4])
           in (result, filenameMd5s(filename \<mapsto> result))))"

definition localObjectId ::
  "(string \<Rightarrow> nat \<Rightarrow> 8 word) \<Rightarrow> (string \<rightharpoonup> string) \<Rightarrow> string \<Rightarrow> string \<Rightarrow>
   string \<times> (string \<rightharpoonup> string)" where
  "localObjectId md5_Sum filenameMd5s filename objname =
     (let (hash, filenameMd5s') = getFilenameHash md5_Sum filenameMd5s filename
      in (''_'' @ hash @ objname, filenameMd5s'))"

text \<open>
  \<^verbatim>\<open>filenameMd5s\<close> starts empty, and \<^verbatim>\<open>getFilenameHash\<close> alone writes to it: the
  cache after the file names \<open>names\<close> have been hashed, in that order.
\<close>

definition filenameMd5s_after :: "(string \<Rightarrow> nat \<Rightarrow> 8 word) \<Rightarrow> string list \<Rightarrow> (string \<rightharpoonup> string)" where
  "filenameMd5s_after md5_Sum names =
     fold (\<lambda>name cache. snd (getFilenameHash md5_Sum cache name)) names Map.empty"

text \<open>
  The MD5 digest of the path \<^verbatim>\<open>/etc/wb-rules-modules/m.js\<close>,
  \<^verbatim>\<open>c0b76b9fa69f59cb478cef1d1a36d7f9\<close>, to run the functions on a concrete module.
\<close>

definition md5_Sum_m_js :: "string \<Rightarrow> nat \<Rightarrow> 8 word" where
  "md5_Sum_m_js filename i =
     (if filename = ''/etc/wb-rules-modules/m.js''
      then [192, 183, 107, 159, 166, 159, 89, 203, 71, 140, 239, 29, 26, 54, 215, 249] ! i
      else 0)"

text \<open>
  The hash of a path in the spec's words, to compare \<^verbatim>\<open>getFilenameHash\<close> with: the
  base64url encoding, without padding, of the first four bytes of the digest \<open>d\<close>
  after byte \<open>i\<close> has been XOR-ed with bytes \<open>i + 4\<close>, \<open>i + 8\<close> and \<open>i + 12\<close>.
\<close>

definition folded_digest_base64url :: "(nat \<Rightarrow> 8 word) \<Rightarrow> string" where
  "folded_digest_base64url d =
     RawURLEncoding_EncodeToString
       [d 0 XOR d 4 XOR d 8 XOR d 12, d 1 XOR d 5 XOR d 9 XOR d 13,
        d 2 XOR d 6 XOR d 10 XOR d 14, d 3 XOR d 7 XOR d 11 XOR d 15]"

text \<open>\<^verbatim>\<open>maybeExpandLocalObjectId\<close>: \<open>this\<close> is the binding \<^verbatim>\<open>ctx.PushThis()\<close> pushes.\<close>

definition maybeExpandLocalObjectId ::
  "(string \<Rightarrow> nat \<Rightarrow> 8 word) \<Rightarrow> (string \<rightharpoonup> string) \<Rightarrow> jsval \<Rightarrow> string \<Rightarrow>
   string \<times> (string \<rightharpoonup> string)" where
  "maybeExpandLocalObjectId md5_Sum filenameMd5s this name =
     (if IsObject this \<and> HasPropString this ''filename'' then
        (let filename = GetPropString this ''filename''
         in if IsString filename
            then localObjectId md5_Sum filenameMd5s (GetString filename) name
            else (name, filenameMd5s))
      else (name, filenameMd5s))"

text \<open>
  \<^verbatim>\<open>esVirtualDeviceId\<close> (\<^verbatim>\<open>module.virtualDeviceId\<close>) and \<^verbatim>\<open>esPersistentName\<close>
  (\<^verbatim>\<open>module._wbPersistentName\<close>, behind \<^verbatim>\<open>module.PersistentStorage\<close>);
  \<open>dbOpen\<close> says whether \<^verbatim>\<open>engine.persistentDB\<close> is set.
\<close>

definition esVirtualDeviceId ::
  "(string \<Rightarrow> nat \<Rightarrow> 8 word) \<Rightarrow> (string \<rightharpoonup> string) \<Rightarrow> jsval \<Rightarrow> jsval list \<Rightarrow>
   duk_ret \<times> (string \<rightharpoonup> string)" where
  "esVirtualDeviceId md5_Sum filenameMd5s this args =
     (if length args \<noteq> 1 \<or> \<not> IsString (last args) then (DUK_RET_ERROR, filenameMd5s)
      else
        (let (name, filenameMd5s') =
               maybeExpandLocalObjectId md5_Sum filenameMd5s this (GetString (last args))
         in (Return1 (JSString name), filenameMd5s')))"

definition esPersistentName ::
  "(string \<Rightarrow> nat \<Rightarrow> 8 word) \<Rightarrow> bool \<Rightarrow> (string \<rightharpoonup> string) \<Rightarrow> jsval \<Rightarrow> jsval list \<Rightarrow>
   duk_ret \<times> engine_call list \<times> (string \<rightharpoonup> string)" where
  "esPersistentName md5_Sum dbOpen filenameMd5s this args =
     (if \<not> dbOpen then
        (DUK_RET_ERROR, [Engine_Log_ERROR ''persistent DB is not initialized''], filenameMd5s)
      else if length args < 1 \<or> length args > 2 then
        (DUK_RET_ERROR, [Engine_Log_ERROR ''bad persistent storage definition''], filenameMd5s)
      else if \<not> IsString (args ! 0) then
        (DUK_RET_ERROR, [Engine_Log_ERROR ''persistent storage name must be string''],
         filenameMd5s)
      else if length args = 2 \<and> args ! 1 \<noteq> JSUndefined \<and> \<not> IsObject (args ! 1) then
        (DUK_RET_ERROR, [Engine_Log_ERROR ''persistent storage options must be object''],
         filenameMd5s)
      else
        (let (name, filenameMd5s') =
               maybeExpandLocalObjectId md5_Sum filenameMd5s this (GetString (args ! 0))
         in (Return1 (JSString name),
             [Engine_Log_DEBUG (''create local storage name: '' @ name)], filenameMd5s')))"

section \<open>Module search\<close>

text \<open>
  \<^verbatim>\<open>ModSearch\<close> writes to objects that scripts of every thread share, so the objects
  live in a store: an object is the address of its property table, and two references
  are the same object when the addresses are equal.  An address not yet handed out
  holds the empty table; \<^verbatim>\<open>PushObject\<close> hands out the next one.  The heap stash is a
  property table of its own.
\<close>

datatype hval = HUndefined | HString string | HObject nat

record duk_heap =
  objects :: "nat \<Rightarrow> (string \<rightharpoonup> hval)"
  next_object :: nat
  heap_stash :: "string \<rightharpoonup> hval"

definition PushObject :: "duk_heap \<Rightarrow> nat \<times> duk_heap" where
  "PushObject h =
     (next_object h,
      h\<lparr>objects := (objects h)(next_object h := Map.empty), next_object := Suc (next_object h)\<rparr>)"

definition PutProp :: "duk_heap \<Rightarrow> nat \<Rightarrow> string \<Rightarrow> hval \<Rightarrow> duk_heap" where
  "PutProp h a key v = h\<lparr>objects := (objects h)(a := (objects h a)(key \<mapsto> v))\<rparr>"

definition GetProp :: "duk_heap \<Rightarrow> nat \<Rightarrow> string \<Rightarrow> hval" where
  "GetProp h a key = (case objects h a key of None \<Rightarrow> HUndefined | Some v \<Rightarrow> v)"

definition HasProp :: "duk_heap \<Rightarrow> nat \<Rightarrow> string \<Rightarrow> bool" where
  "HasProp h a key = (objects h a key \<noteq> None)"

definition MODULE_FILENAME_PROP :: string where
  "MODULE_FILENAME_PROP = ''filename''"

definition MODULE_STORAGE_PROP :: string where
  "MODULE_STORAGE_PROP = ''storage''"

definition MODULES_USER_STORAGE_OBJ_NAME :: string where
  "MODULES_USER_STORAGE_OBJ_NAME = ''_esModules''"

text \<open>\<^verbatim>\<open>initModulesStorage\<close>, through \<^verbatim>\<open>initHeapStashObject\<close>.\<close>

definition initModulesStorage :: "duk_heap \<Rightarrow> duk_heap" where
  "initModulesStorage h =
     (let (a, h') = PushObject h
      in h'\<lparr>heap_stash := (heap_stash h')(MODULES_USER_STORAGE_OBJ_NAME \<mapsto> HObject a)\<rparr>)"

datatype modsearch_ret = Source string | Ret_ERROR | Throws_TypeError

text \<open>
  The body of the \<^verbatim>\<open>if err == nil\<close> branch of \<^verbatim>\<open>ModSearch\<close>.  Duktape throws a
  TypeError where a property is put on, or looked for in, a value that is no object.
\<close>

definition ModSearch_found :: "string \<Rightarrow> string \<Rightarrow> hval \<Rightarrow> duk_heap \<Rightarrow> modsearch_ret \<times> duk_heap" where
  "ModSearch_found path src modobj h =
     (case modobj of
        HObject m \<Rightarrow>
          (let h1 = PutProp h m MODULE_FILENAME_PROP (HString path)
           in case heap_stash h1 MODULES_USER_STORAGE_OBJ_NAME of
                Some (HObject esModules) \<Rightarrow>
                  (let h2 = (if \<not> HasProp h1 esModules path
                             then (let (newStorage, h') = PushObject h1
                                   in PutProp h' esModules path (HObject newStorage))
                             else h1);
                       storage = GetProp h2 esModules path;
                       h3 = PutProp h2 m MODULE_STORAGE_PROP storage
                   in (Source src, h3))
              | _ \<Rightarrow> (Throws_TypeError, h1))
      | _ \<Rightarrow> (Throws_TypeError, h))"

text \<open>
  The loop over \<^verbatim>\<open>engine.modulesDirs\<close>.  \<open>fs\<close> is the file system as
  \<^verbatim>\<open>ioutil.ReadFile\<close> sees it: the content of a path it can read.  The third result
  lists the paths read, in order.
\<close>

fun ModSearch_dirs ::
  "(string \<rightharpoonup> string) \<Rightarrow> string \<Rightarrow> hval \<Rightarrow> string list \<Rightarrow> duk_heap \<Rightarrow>
   modsearch_ret \<times> duk_heap \<times> string list" where
  "ModSearch_dirs fs ident modobj [] h = (Ret_ERROR, h, [])"
| "ModSearch_dirs fs ident modobj (dir # dirs) h =
     (let path = dir @ ''/'' @ ident @ ''.js''
      in case fs path of
           Some src \<Rightarrow> (let (r, h') = ModSearch_found path src modobj h in (r, h', [path]))
         | None \<Rightarrow>
             (let (r, h', reads) = ModSearch_dirs fs ident modobj dirs h
              in (r, h', path # reads)))"

text \<open>
  \<^verbatim>\<open>ModSearch\<close>, called by Duktape's \<^verbatim>\<open>require\<close> with the module id, \<^verbatim>\<open>require\<close>,
  \<^verbatim>\<open>exports\<close> and the module object.
\<close>

fun hGetString :: "hval \<Rightarrow> string" where
  "hGetString (HString s) = s"
| "hGetString _ = []"

definition ModSearch ::
  "(string \<rightharpoonup> string) \<Rightarrow> string list \<Rightarrow> duk_heap \<Rightarrow> hval \<Rightarrow> hval \<Rightarrow> hval \<Rightarrow> hval \<Rightarrow>
   modsearch_ret \<times> duk_heap \<times> string list" where
  "ModSearch fs modulesDirs h ident require exports modobj =
     ModSearch_dirs fs (hGetString ident) modobj modulesDirs h"

text \<open>
  A run of \<^verbatim>\<open>require\<close> calls, from any script threads: each is a call of
  \<^verbatim>\<open>ModSearch\<close> with the file system and module directories of its moment, the
  module id and the three objects Duktape passes; the heap is the one heap all threads
  share.
\<close>

type_synonym modsearch_call = "(string \<rightharpoonup> string) \<times> string list \<times> hval \<times> hval \<times> hval \<times> hval"

fun ModSearch_calls :: "duk_heap \<Rightarrow> modsearch_call list \<Rightarrow> duk_heap" where
  "ModSearch_calls h [] = h"
| "ModSearch_calls h ((fs, modulesDirs, ident, require, exports, modobj) # calls) =
     ModSearch_calls (fst (snd (ModSearch fs modulesDirs h ident require exports modobj))) calls"

text \<open>
  The stash holds the modules object \<open>em\<close>, an allocated object, and that object holds
  \<open>v\<close> under \<open>p\<close>.
\<close>

definition keeps :: "nat \<Rightarrow> string \<Rightarrow> hval \<Rightarrow> duk_heap \<Rightarrow> bool" where
  "keeps em p v h \<longleftrightarrow>
     heap_stash h MODULES_USER_STORAGE_OBJ_NAME = Some (HObject em) \<and> em < next_object h
     \<and> objects h em p = Some v"

text \<open>
  A heap right after \<^verbatim>\<open>initModulesStorage\<close>, with room for the module objects 0, 1
  and 2 that \<^verbatim>\<open>require\<close> creates, and a modules directory holding \<^verbatim>\<open>m.js\<close>, to run
  \<^verbatim>\<open>ModSearch\<close> on concrete calls.
\<close>

definition heap_after_init :: duk_heap where
  "heap_after_init =
     initModulesStorage \<lparr>objects = \<lambda>a. Map.empty, next_object = 3, heap_stash = Map.empty\<rparr>"

definition fs_with_m_js :: "string \<rightharpoonup> string" where
  "fs_with_m_js = [''/etc/wb-rules-modules/m.js'' \<mapsto> ''exports.n = 42;'']"

section \<open>Persistent storage\<close>

text \<open>
  The database is the bolt library's.  It is modelled as its documentation describes
  it: a map from bucket names to buckets, a bucket a map from keys to values;
  \<^verbatim>\<open>CreateBucketIfNotExists\<close> returns an error if the bucket name is blank or too
  long, \<^verbatim>\<open>Put\<close> if the key is blank, the key is too large or the value is too large;
  \<^verbatim>\<open>Update\<close> commits when its function returns no error and rolls back otherwise.
  Input and output errors of the file are outside the model.
\<close>

type_synonym bolt_Bucket = "string \<rightharpoonup> string"
type_synonym bolt_DB = "string \<rightharpoonup> bolt_Bucket"

datatype bolt_error =
    ErrBucketNameRequired
  | ErrKeyRequired
  | ErrKeyTooLarge
  | ErrValueTooLarge

definition MaxKeySize :: nat where
  "MaxKeySize = 32768"

definition MaxValueSize :: nat where
  "MaxValueSize = 2 ^ 31 - 2"

definition CreateBucketIfNotExists ::
  "bolt_DB \<Rightarrow> string \<Rightarrow> bolt_error + bolt_Bucket \<times> bolt_DB" where
  "CreateBucketIfNotExists tx name =
     (if name = [] then Inl ErrBucketNameRequired
      else if length name > MaxKeySize then Inl ErrKeyTooLarge
      else case tx name of
             None \<Rightarrow> Inr (Map.empty, tx(name \<mapsto> Map.empty))
           | Some b \<Rightarrow> Inr (b, tx))"

definition Put :: "bolt_Bucket \<Rightarrow> string \<Rightarrow> string \<Rightarrow> bolt_error + bolt_Bucket" where
  "Put b key val =
     (if key = [] then Inl ErrKeyRequired
      else if length key > MaxKeySize then Inl ErrKeyTooLarge
      else if length val > MaxValueSize then Inl ErrValueTooLarge
      else Inr (b(key \<mapsto> val)))"

text \<open>The function \<^verbatim>\<open>esPersistentSet\<close> hands to \<^verbatim>\<open>Update\<close>.\<close>

definition persistentSet_tx :: "string \<Rightarrow> string \<Rightarrow> string \<Rightarrow> bolt_DB \<Rightarrow> bolt_error + bolt_DB" where
  "persistentSet_tx bucket key val tx =
     (case CreateBucketIfNotExists tx bucket of
        Inl err \<Rightarrow> Inl err
      | Inr (b, tx') \<Rightarrow>
          (case Put b key val of
             Inl err \<Rightarrow> Inl err
           | Inr b' \<Rightarrow> Inr (tx'(bucket \<mapsto> b'))))"

definition Update :: "(bolt_DB \<Rightarrow> bolt_error + bolt_DB) \<Rightarrow> bolt_DB \<Rightarrow> bolt_DB" where
  "Update fn db = (case fn db of Inl err \<Rightarrow> db | Inr db' \<Rightarrow> db')"

text \<open>
  \<^verbatim>\<open>esPersistentSet\<close> and \<^verbatim>\<open>esPersistentGet\<close>.  \<open>persistentDB\<close> is
  \<^verbatim>\<open>engine.persistentDB\<close>, \<open>None\<close> for nil.  \<open>JsonEncode\<close> and \<open>JsonDecode\<close> are
  Duktape's, passed in; \<open>JsonDecode\<close> answers \<open>None\<close> where Duktape throws.
\<close>

definition esPersistentSet ::
  "(jsval \<Rightarrow> string) \<Rightarrow> bolt_DB option \<Rightarrow> jsval list \<Rightarrow>
   duk_ret \<times> engine_call list \<times> bolt_DB option" where
  "esPersistentSet JsonEncode persistentDB args =
     (case persistentDB of
        None \<Rightarrow> (DUK_RET_ERROR, [Engine_Log_ERROR ''persistent DB is not initialized''], None)
      | Some db \<Rightarrow>
          if length args \<noteq> 3 then
            (DUK_RET_ERROR,
             [Engine_Log_ERROR ''bad persistentSet request, arg number mismatch''], Some db)
          else if \<not> IsString (args ! 0) then
            (DUK_RET_ERROR,
             [Engine_Log_ERROR ''persistent storage bucket name must be string''], Some db)
          else if \<not> IsString (args ! 1) then
            (DUK_RET_ERROR, [Engine_Log_ERROR ''persistent storage key must be string''], Some db)
          else
            (let bucket = GetString (args ! 0);
                 key = GetString (args ! 1);
                 val = JsonEncode (args ! 2)
             in (Return0, [], Some (Update (persistentSet_tx bucket key val) db))))"

definition esPersistentGet ::
  "(string \<Rightarrow> jsval option) \<Rightarrow> bolt_DB option \<Rightarrow> jsval list \<Rightarrow> duk_ret \<times> engine_call list" where
  "esPersistentGet JsonDecode persistentDB args =
     (case persistentDB of
        None \<Rightarrow> (DUK_RET_ERROR, [Engine_Log_ERROR ''persistent DB is not initialized''])
      | Some db \<Rightarrow>
          if length args \<noteq> 2 then
            (DUK_RET_ERROR, [Engine_Log_ERROR ''bad persistentGet request, arg number mismatch''])
          else if \<not> IsString (args ! 0) then
            (DUK_RET_ERROR, [Engine_Log_ERROR ''persistent storage bucket name must be string''])
          else if \<not> IsString (args ! 1) then
            (DUK_RET_ERROR, [Engine_Log_ERROR ''persistent storage key must be string''])
          else
            (let bucket = GetString (args ! 0);
                 key = GetString (args ! 1)
             in case db bucket of
                  None \<Rightarrow> (Return1 JSUndefined, [])
                | Some b \<Rightarrow>
                    (case b key of
                       None \<Rightarrow> (Return1 JSUndefined, [])
                     | Some v \<Rightarrow>
                         (case JsonDecode v of
                            None \<Rightarrow> (Throws_SyntaxError, [])
                          | Some x \<Rightarrow> (Return1 x, [])))))"

text \<open>
  A JSON codec for the values \<^verbatim>\<open>true\<close>, \<^verbatim>\<open>false\<close> and \<^verbatim>\<open>null\<close>, to run the two
  functions on concrete calls.
\<close>

definition json_encode_lit :: "jsval \<Rightarrow> string" where
  "json_encode_lit v =
     (if v = JSBoolean True then ''true''
      else if v = JSBoolean False then ''false''
      else if v = JSNull then ''null''
      else [])"

definition json_decode_lit :: "string \<Rightarrow> jsval option" where
  "json_decode_lit s =
     (if s = ''true'' then Some (JSBoolean True)
      else if s = ''false'' then Some (JSBoolean False)
      else if s = ''null'' then Some JSNull
      else None)"

lemma truncate_toward_zero_unit: "- 1 < x \<Longrightarrow> x < 1 \<Longrightarrow> truncate_toward_zero x = 0"
  by (auto simp add: truncate_toward_zero_def floor_eq_iff ceiling_eq_iff)

lemma truncate_toward_zero_of_int: "truncate_toward_zero (of_int n) = n"
  by (simp add: truncate_toward_zero_def)

lemma TimerId_of_float64_unit: "- 1 < x \<Longrightarrow> x < 1 \<Longrightarrow> TimerId_of_float64 outside x = 0"
  by (simp add: TimerId_of_float64_def truncate_toward_zero_unit)

lemma TimerId_of_float64_of_int:
  assumes "0 \<le> n" and "n < 2 ^ 31"
  shows "TimerId_of_float64 outside (of_int n) = n"
proof -
  have "(of_int n :: real) < of_int (2 ^ 31)"
    using assms(2) by (simp only: of_int_less_iff)
  then have "(of_int n :: real) < 2 ^ 31"
    by simp
  moreover have "(- 1 :: real) < of_int n"
    using assms(1) by linarith
  ultimately show ?thesis
    by (simp add: TimerId_of_float64_def truncate_toward_zero_of_int)
qed

text \<open>
  Claim C9.  \<^verbatim>\<open>_wbStopTimer\<close> converts the number it is given to a \<^verbatim>\<open>TimerId\<close>,
  the numeric id.  When the id is 0 the call logs the warning, makes no call to the
  timer registry and returns normally; when the id is not 0 the stop request for it is
  forwarded to the registry.  The number 0 is the id 0, and a whole number from 1 up
  to \<open>2^31\<close> is the id of that value, so that stopping it is forwarded.  A number
  strictly between \<open>-1\<close> and 1 loses its fraction and is the id 0.
\<close>

theorem esWbStopTimer_numeric:
  "(TimerId_of_float64 outside x = 0 \<longrightarrow>
      esWbStopTimer outside [JSNumber x] = (Return0, [Error_Printf ''timer id cannot be zero'']))
   \<and> (TimerId_of_float64 outside x \<noteq> 0 \<longrightarrow>
      esWbStopTimer outside [JSNumber x]
        = (Return0, [StopTimerByIndex (TimerId_of_float64 outside x)]))
   \<and> esWbStopTimer outside [JSNumber 0] = (Return0, [Error_Printf ''timer id cannot be zero''])
   \<and> (0 < n \<and> n < 2 ^ 31 \<longrightarrow>
      esWbStopTimer outside [JSNumber (of_int n)] = (Return0, [StopTimerByIndex n]))
   \<and> (- 1 < x \<and> x < 1 \<longrightarrow> TimerId_of_float64 outside x = 0)"
  using TimerId_of_float64_unit [of x outside] TimerId_of_float64_unit [of 0 outside]
    TimerId_of_float64_of_int [of n outside]
  by (simp add: esWbStopTimer_def Let_def)

text \<open>
  Claim C9 at the ids 0 and 7, and at minus one half.
\<close>

theorem esWbStopTimer_numeric_witness:
  "esWbStopTimer floor [JSNumber 0] = (Return0, [Error_Printf ''timer id cannot be zero''])
   \<and> esWbStopTimer floor [JSNumber 7] = (Return0, [StopTimerByIndex 7])
   \<and> esWbStopTimer floor [JSNumber (- 1 / 2)] = (Return0, [Error_Printf ''timer id cannot be zero''])"
  using esWbStopTimer_numeric [of floor 0 7] esWbStopTimer_numeric [of floor "- 1 / 2" 7]
  by (simp add: TimerId_of_float64_def truncate_toward_zero_def)

lemma round_half_even_ge_floor: "\<lfloor>x\<rfloor> \<le> round_half_even x"
  by (simp add: round_half_even_def Let_def)

lemma round_half_even_of_int: "round_half_even (of_int m) = m"
  by (simp add: round_half_even_def Let_def)

lemma float64_round_lower:
  assumes "0 < x"
  shows "2 powr (of_int \<lfloor>log 2 x\<rfloor>) \<le> float64_round x"
proof -
  define e where "e = \<lfloor>log 2 x\<rfloor>"
  define q :: real where "q = 2 powr (of_int e - 52)"
  have q: "0 < q" by (simp add: q_def)
  have lo: "2 powr (of_int e) \<le> x"
    using assms floor_log_eq_powr_iff [of x 2 e] by (simp add: e_def)
  have "(2 :: real) powr (of_int e) = 2 powr (52 + (of_int e - 52))"
    by simp
  also have "\<dots> = 2 powr 52 * 2 powr (of_int e - 52)"
    by (rule powr_add)
  also have "(2 :: real) powr 52 = 2 ^ 52"
    using powr_realpow [of 2 52] by simp
  finally have split: "2 powr (of_int e) = 2 ^ 52 * q"
    by (simp only: q_def)
  with lo q have "(2 ^ 52 :: real) \<le> x / q"
    by (simp add: pos_le_divide_eq)
  then have "(of_int (2 ^ 52) :: real) \<le> x / q"
    by simp
  then have "(2 ^ 52 :: int) \<le> \<lfloor>x / q\<rfloor>"
    by (simp only: le_floor_iff)
  then have "(2 ^ 52 :: int) \<le> round_half_even (x / q)"
    using round_half_even_ge_floor [of "x / q"] by linarith
  then have "(of_int (2 ^ 52) :: real) \<le> of_int (round_half_even (x / q))"
    by (simp only: of_int_le_iff)
  then have "2 ^ 52 * q \<le> of_int (round_half_even (x / q)) * q"
    using q by simp
  with split assms show ?thesis
    by (simp add: float64_round_def Let_def e_def [symmetric] q_def [symmetric])
qed

lemma float64_round_pos: "0 < x \<Longrightarrow> 0 < float64_round x"
  using float64_round_lower [of x] powr_gt_zero [of 2 "of_int \<lfloor>log 2 x\<rfloor>"]
  by linarith

lemma float64_round_large:
  assumes "2 ^ 63 \<le> x"
  shows "2 ^ 63 \<le> float64_round x"
proof -
  have pos: "0 < x"
    using assms by (smt (verit) zero_less_power)
  have "2 powr (of_int 63) \<le> x"
    using assms powr_realpow [of 2 63] by simp
  then have "(63 :: real) \<le> log 2 x"
    using pos by (simp add: le_log_iff)
  then have "63 \<le> \<lfloor>log 2 x\<rfloor>"
    by (simp add: le_floor_iff)
  then have "(63 :: real) \<le> of_int \<lfloor>log 2 x\<rfloor>"
    by simp
  then have "(2 :: real) powr 63 \<le> 2 powr (of_int \<lfloor>log 2 x\<rfloor>)"
    by (rule powr_mono) simp
  moreover have "(2 :: real) powr 63 = 2 ^ 63"
    using powr_realpow [of 2 63] by simp
  ultimately show ?thesis
    using float64_round_lower [OF pos] by linarith
qed

lemma float64_round_small:
  fixes e :: nat
  assumes "2 ^ e \<le> x" and "x < 2 ^ Suc e" and "e \<le> 52"
  shows "float64_round x = of_int (round_half_even (x * 2 ^ (52 - e))) / 2 ^ (52 - e)"
proof -
  have pos: "0 < x"
    using assms(1) by (smt (verit) zero_less_power)
  have "2 powr (of_int (int e)) \<le> x \<and> x < 2 powr (of_int (int e + 1))"
    using assms(1,2) powr_realpow [of 2 e] powr_realpow [of 2 "Suc e"]
    by (simp add: add.commute)
  then have e: "\<lfloor>log 2 x\<rfloor> = int e"
    using pos floor_log_eq_powr_iff [of x 2 "int e"] by simp
  have "(2 :: real) powr (of_int (int e) - 52) = 2 powr (- real (52 - e))"
    using assms(3) by (simp add: of_nat_diff)
  also have "\<dots> = 1 / 2 ^ (52 - e)"
    by (simp add: powr_minus powr_realpow inverse_eq_divide)
  finally have q: "(2 :: real) powr (of_int (int e) - 52) = 1 / 2 ^ (52 - e)" .
  from pos e q show ?thesis
    by (simp add: float64_round_def Let_def)
qed

lemma float64_mul_1ms: "float64_mul 1 1000000 = 1000000"
proof -
  have "float64_round 1000000 = of_int (round_half_even (1000000 * 2 ^ (52 - 19))) / 2 ^ (52 - 19)"
    by (rule float64_round_small) simp_all
  also have "(1000000 * 2 ^ (52 - 19) :: real) = of_int (1000000 * 2 ^ 33)"
    by simp
  finally show ?thesis
    by (simp only: float64_mul_def round_half_even_of_int) simp
qed


lemma float64_mul_2_3ms:
  "float64_mul (2589569785738035 / 1125899906842624) 1000000 = 2300000"
proof -
  let ?x = "2589569785738035 / 1125899906842624 * 1000000 :: real"
  have "float64_round ?x = of_int (round_half_even (?x * 2 ^ (52 - 21))) / 2 ^ (52 - 21)"
    by (rule float64_round_small) simp_all
  also have "?x * 2 ^ (52 - 21) = 2589569785738035000000 / 524288"
    by simp
  also have "round_half_even (2589569785738035000000 / 524288) = 4939212390400000"
    by (simp add: round_half_even_def Let_def)
  finally show ?thesis
    by (simp add: float64_mul_def)
qed

lemma Duration_of_float64_bound: "Duration_of_float64 outside x < 2 ^ 63"
proof (cases "- (2 ^ 63) - 1 < x \<and> x < 2 ^ 63")
  case True
  have "truncate_toward_zero x < 2 ^ 63"
  proof (cases "0 \<le> x")
    case nonneg: True
    have "\<lfloor>x\<rfloor> < 2 ^ 63"
      using True by (simp add: floor_less_iff)
    with nonneg show ?thesis
      by (simp add: truncate_toward_zero_def)
  next
    case neg: False
    then have "\<lceil>x\<rceil> \<le> 0"
      by (simp add: ceiling_le_iff)
    with neg show ?thesis
      by (simp add: truncate_toward_zero_def)
  qed
  with True show ?thesis
    by (simp add: Duration_of_float64_def)
next
  case False
  have "sint (outside x) < 2 ^ (LENGTH(64) - 1)"
    by (rule sint_lt)
  then have "sint (outside x) < 2 ^ 63"
    by simp
  moreover have "Duration_of_float64 outside x = sint (outside x)"
    using False by (auto simp add: Duration_of_float64_def)
  ultimately show ?thesis
    by simp
qed

text \<open>
  Claim C8, as amended.  A call of \<^verbatim>\<open>_wbStartTimer\<close> that starts a timer (its first
  argument a function or a non-empty name, its second a number of milliseconds) starts
  exactly one.  Its interval is 1 millisecond (1000000 ns) when fewer than 1 ms were
  asked for.  When 1 ms or more were asked for and their nanoseconds, the float64
  product with 1000000, stay below \<open>2^63\<close>, the interval is that product without its
  fraction: the milliseconds asked for, unchanged.
\<close>

theorem esWbStartTimer_interval:
  assumes "IsFunction a0 \<or> (IsString a0 \<and> GetString a0 \<noteq> [])"
  shows "(ms < 1 \<longrightarrow>
            started_intervals
              (fst (snd (esWbStartTimer outside ctx timerId ctxTimers [a0, JSNumber ms, a2])))
              = [1000000])
       \<and> (1 \<le> ms \<and> float64_mul ms 1000000 < 2 ^ 63 \<longrightarrow>
            started_intervals
              (fst (snd (esWbStartTimer outside ctx timerId ctxTimers [a0, JSNumber ms, a2])))
              = [\<lfloor>float64_mul ms 1000000\<rfloor>])"
proof -
  have calls: "started_intervals
      (fst (snd (esWbStartTimer outside ctx timerId ctxTimers [a0, JSNumber ms, a2])))
      = [Duration_of_float64 outside (float64_mul (if ms < 1 then 1 else ms) 1000000)]"
    using assms
    by (cases a0)
       (auto simp add: esWbStartTimer_def handleTimerCleanup_def Let_def MIN_INTERVAL_MS_def
          Millisecond_def NO_TIMER_NAME_def split: prod.splits)
  have small: "Duration_of_float64 outside (float64_mul 1 1000000) = 1000000"
    by (simp add: float64_mul_1ms Duration_of_float64_def truncate_toward_zero_def)
  have large: "Duration_of_float64 outside (float64_mul ms 1000000) = \<lfloor>float64_mul ms 1000000\<rfloor>"
    if "1 \<le> ms" and "float64_mul ms 1000000 < 2 ^ 63"
  proof -
    have "0 < ms * 1000000"
      using that(1) by simp
    then have "0 < float64_mul ms 1000000"
      unfolding float64_mul_def by (rule float64_round_pos)
    with that(2) show ?thesis
      by (simp add: Duration_of_float64_def truncate_toward_zero_def)
  qed
  show ?thesis
    using calls small large by auto
qed

text \<open>
  Claim C8 as stated fails: \<open>10^13\<close> ms are at least 1 ms, and their \<open>10^19\<close> ns are
  more than a \<^verbatim>\<open>time.Duration\<close> holds.  The timer is started with what the platform's
  conversion answers, on amd64 the most negative int64; by \<open>Duration_of_float64_bound\<close>
  no platform can answer the interval asked for.
\<close>

theorem esWbStartTimer_overflow_counterexample:
  "(1 :: real) \<le> 10000000000000
   \<and> started_intervals
        (fst (snd (esWbStartTimer int64_indefinite 0 1 Map.empty
                     [JSFunction 0 [], JSNumber 10000000000000, JSBoolean False])))
       = [- 9223372036854775808]
   \<and> (- 9223372036854775808 :: int) \<noteq> 10000000000000 * 1000000"
proof -
  have "(2 ^ 63 :: real) \<le> 10000000000000 * 1000000"
    by simp
  then have "2 ^ 63 \<le> float64_round (10000000000000 * 1000000)"
    by (rule float64_round_large)
  then have big: "\<not> float64_mul 10000000000000 1000000 < 2 ^ 63"
    by (simp add: float64_mul_def)
  have "sint (2 ^ 63 :: 64 word) = - 9223372036854775808"
    by simp
  with big have "Duration_of_float64 int64_indefinite (float64_mul 10000000000000 1000000)
      = - 9223372036854775808"
    by (simp add: Duration_of_float64_def int64_indefinite_def)
  then show ?thesis
    by (simp add: esWbStartTimer_def handleTimerCleanup_def Let_def MIN_INTERVAL_MS_def
          Millisecond_def NO_TIMER_NAME_def)
qed

text \<open>
  Claim C8, as amended, at a quarter of a millisecond (anonymous timer) and at the
  float64 nearest to 2.3 ms (named ticker), whose product with 1000000 rounds to
  2300000.
\<close>

theorem esWbStartTimer_interval_witness:
  "started_intervals
     (fst (snd (esWbStartTimer int64_indefinite 0 1 Map.empty
                  [JSFunction 0 [], JSNumber (1 / 4), JSBoolean False]))) = [1000000]
   \<and> started_intervals
     (fst (snd (esWbStartTimer int64_indefinite 0 1 Map.empty
                  [JSString ''t'', JSNumber (2589569785738035 / 1125899906842624),
                   JSBoolean True]))) = [2300000]"
proof -
  have "started_intervals
     (fst (snd (esWbStartTimer int64_indefinite 0 1 Map.empty
                  [JSFunction 0 [], JSNumber (1 / 4), JSBoolean False]))) = [1000000]"
    using esWbStartTimer_interval [of "JSFunction 0 []" "1 / 4" int64_indefinite 0 1 Map.empty
        "JSBoolean False"]
    by simp
  moreover have "started_intervals
     (fst (snd (esWbStartTimer int64_indefinite 0 1 Map.empty
                  [JSString ''t'', JSNumber (2589569785738035 / 1125899906842624),
                   JSBoolean True]))) = [2300000]"
    using esWbStartTimer_interval [of "JSString ''t''" "2589569785738035 / 1125899906842624"
        int64_indefinite 0 1 Map.empty "JSBoolean True"]
    by (simp add: float64_mul_2_3ms)
  ultimately show ?thesis
    by (rule conjI)
qed

lemma SplitN_slash_2_length: "length (SplitN_slash_2 s) = 2 \<longleftrightarrow> CHR ''/'' \<in> set s"
  by (simp add: SplitN_slash_2_def)

lemma buildSingle_fails_iff:
  "(\<exists>err. buildSingleWhenChangedRuleCondition v = Inl err) \<longleftrightarrow> whenChanged_item_malformed v"
  by (cases v)
     (auto simp add: buildSingleWhenChangedRuleCondition_def whenChanged_item_malformed_def
        SplitN_slash_2_def NewCellChangedRuleCondition_def Let_def)

lemma buildConds_fails_iff:
  "(\<exists>err. buildWhenChangedConds xs = Inl err) \<longleftrightarrow> list_ex whenChanged_item_malformed xs"
proof (induction xs)
  case Nil
  then show ?case by simp
next
  case (Cons x xs)
  show ?case
  proof (cases "buildSingleWhenChangedRuleCondition x")
    case (Inl e)
    then have "whenChanged_item_malformed x"
      using buildSingle_fails_iff [of x] by auto
    with Inl show ?thesis by simp
  next
    case (Inr c)
    then have "\<not> whenChanged_item_malformed x"
      using buildSingle_fails_iff [of x] by auto
    with Inr Cons.IH show ?thesis
      by (auto split: sum.splits)
  qed
qed

lemma buildWhenChanged_fails_iff:
  "(\<exists>err. buildWhenChangedRuleCondition def = Inl err)
     \<longleftrightarrow> whenChanged_malformed (GetPropString def ''whenChanged'')"
proof (cases "GetPropString def ''whenChanged''")
  case (JSArray xs ps)
  then show ?thesis
    using buildConds_fails_iff [of xs]
    by (auto simp add: buildWhenChangedRuleCondition_def whenChanged_malformed_def Let_def
          split: sum.splits)
qed (use buildSingle_fails_iff [of "GetPropString def ''whenChanged''"] in
      \<open>simp_all add: buildWhenChangedRuleCondition_def whenChanged_malformed_def\<close>)

lemma buildRuleCond_fails_iff:
  "HasPropString def ''then'' \<Longrightarrow>
   (\<exists>err. buildRuleCond coerce def = Inl err) \<longleftrightarrow> invalid_rule_definition def"
  using buildWhenChanged_fails_iff [of "def"]
  by (auto simp add: buildRuleCond_def invalid_rule_definition_def Let_def)

lemma buildRule_fails_iff:
  "(\<exists>err. fst (buildRule coerce n name def) = Inl err) \<longleftrightarrow> invalid_rule_definition def"
proof (cases "HasPropString def ''then''")
  case True
  then show ?thesis
    using buildRuleCond_fails_iff [of "def" coerce]
    by (auto simp add: buildRule_def Let_def split: sum.splits)
next
  case False
  then show ?thesis
    by (simp add: buildRule_def invalid_rule_definition_def Let_def)
qed


lemma defineRule_shape_named:
  "IsObject d \<Longrightarrow> defineRule_shape fname [JSString s, d] = Some (1, s, fname @ ''/'' @ s)"
  by (simp add: defineRule_shape_def)

lemma defineRule_shape_anonymous:
  "IsObject d \<Longrightarrow> defineRule_shape fname [d] = Some (0, [], [])"
  by (simp add: defineRule_shape_def)

lemma defineRule_shape_None:
  "defineRule_shape fname args = None \<longleftrightarrow>
     \<not> ((\<exists>d. args = [d] \<and> IsObject d) \<or> (\<exists>s d. args = [JSString s, d] \<and> IsObject d))"
proof (cases args)
  case Nil
  then show ?thesis by (simp add: defineRule_shape_def)
next
  case (Cons a as)
  note outer = Cons
  show ?thesis
  proof (cases as)
    case Nil
    with outer show ?thesis by (simp add: defineRule_shape_def)
  next
    case (Cons b bs)
    show ?thesis
    proof (cases bs)
      case Nil
      with outer Cons show ?thesis
        by (cases a) (auto simp add: defineRule_shape_def)
    next
      case (Cons c cs)
      with outer \<open>as = b # bs\<close> show ?thesis by (simp add: defineRule_shape_def)
    qed
  qed
qed

lemma buildRule_name:
  "fst (buildRule coerce n name def) = Inr rule \<Longrightarrow> rule_name rule = name \<and> rule_id rule = n"
  by (auto simp add: buildRule_def NewRule_def Let_def split: if_splits sum.splits)

text \<open>
  Claim C7, as amended.  For a rule definition object, passed alone or after a name,
  \<^verbatim>\<open>_wbDefineRule\<close> throws exactly when the definition is invalid in the spec's sense
  (no \<^verbatim>\<open>then\<close>, conflicting triggers, no trigger, malformed \<^verbatim>\<open>whenChanged\<close>) or the
  definition is valid and \<^verbatim>\<open>engine.DefineRule\<close> answers the built rule with an error.
\<close>

theorem esWbDefineRule_throws_iff:
  assumes "IsObject d" and "args = [d] \<or> args = [JSString s, d]"
  shows "fst (esWbDefineRule coerce fname tb defineRule n cs args) = DUK_RET_ERROR \<longleftrightarrow>
           invalid_rule_definition d
           \<or> (\<exists>rule err. fst (buildRule coerce n (if args = [d] then [] else fname @ ''/'' @ s) d) = Inr rule
                \<and> defineRule rule = Inl err)"
proof -
  let ?name = "if args = [d] then [] else fname @ ''/'' @ s"
  obtain r n' where br: "buildRule coerce n ?name d = (r, n')"
    by (cases "buildRule coerce n ?name d")
  have shape: "\<exists>short. defineRule_shape fname args = Some (length args - 1, short, ?name)"
    using assms defineRule_shape_named [of d fname s] defineRule_shape_anonymous [of d fname]
    by auto
  have nth: "args ! (length args - 1) = d"
    using assms(2) by auto
  show ?thesis
  proof (cases r)
    case (Inl err)
    then have "invalid_rule_definition d"
      using buildRule_fails_iff [of coerce n ?name d] br by auto
    with Inl br shape nth show ?thesis
      by (auto simp add: esWbDefineRule_def)
  next
    case (Inr rule)
    then have "\<not> invalid_rule_definition d"
      using buildRule_fails_iff [of coerce n ?name d] br by auto
    with Inr br shape nth show ?thesis
      by (auto simp add: esWbDefineRule_def split: sum.splits)
  qed
qed

text \<open>
  Claim C7 as stated fails: a definition with \<^verbatim>\<open>when\<close> and \<^verbatim>\<open>then\<close> is valid, and
  the call still throws when \<^verbatim>\<open>engine.DefineRule\<close> returns an error.
\<close>

theorem esWbDefineRule_refused_counterexample:
  "\<not> invalid_rule_definition (JSObject [(''when'', JSFunction 0 []), (''then'', JSFunction 1 [])])
   \<and> fst (esWbDefineRule GetString ''a.js'' [] DefineRule_refusing 1 None
            [JSString ''r'', JSObject [(''when'', JSFunction 0 []), (''then'', JSFunction 1 [])]])
       = DUK_RET_ERROR"
  by (simp add: invalid_rule_definition_def HasPropString_def esWbDefineRule_def
        defineRule_shape_def buildRule_def buildRuleCond_def DefineRule_refusing_def Let_def)

text \<open>
  Claim C7, as amended, at a valid definition that is registered, at a
  \<^verbatim>\<open>whenChanged\<close> string without a slash, and at a valid definition that
  \<^verbatim>\<open>engine.DefineRule\<close> refuses.
\<close>

theorem esWbDefineRule_throws_iff_witness:
  "fst (esWbDefineRule GetString ''a.js'' [] DefineRule_accepting 1 None
          [JSString ''r'', JSObject [(''when'', JSFunction 0 []), (''then'', JSFunction 1 [])]])
     \<noteq> DUK_RET_ERROR
   \<and> fst (esWbDefineRule GetString ''a.js'' [] DefineRule_accepting 1 None
          [JSString ''r'', JSObject [(''whenChanged'', JSString ''nocell''), (''then'', JSFunction 1 [])]])
     = DUK_RET_ERROR
   \<and> fst (esWbDefineRule GetString ''a.js'' [] DefineRule_refusing 1 None
          [JSObject [(''when'', JSFunction 0 []), (''then'', JSFunction 1 [])]])
     = DUK_RET_ERROR"
  using esWbDefineRule_throws_iff [of "JSObject [(''when'', JSFunction 0 []), (''then'', JSFunction 1 [])]"
          "[JSString ''r'', JSObject [(''when'', JSFunction 0 []), (''then'', JSFunction 1 [])]]"
          "''r''" GetString "''a.js''" "[]" DefineRule_accepting 1 None]
    esWbDefineRule_throws_iff [of "JSObject [(''whenChanged'', JSString ''nocell''), (''then'', JSFunction 1 [])]"
          "[JSString ''r'', JSObject [(''whenChanged'', JSString ''nocell''), (''then'', JSFunction 1 [])]]"
          "''r''" GetString "''a.js''" "[]" DefineRule_accepting 1 None]
    esWbDefineRule_throws_iff [of "JSObject [(''when'', JSFunction 0 []), (''then'', JSFunction 1 [])]"
          "[JSObject [(''when'', JSFunction 0 []), (''then'', JSFunction 1 [])]]"
          "''r''" GetString "''a.js''" "[]" DefineRule_refusing 1 None]
  by (simp add: invalid_rule_definition_def HasPropString_def GetPropString_def
        whenChanged_malformed_def whenChanged_item_malformed_def
        buildRule_def buildRuleCond_def DefineRule_refusing_def DefineRule_accepting_def Let_def
        NewRule_def NewLevelTriggeredRuleCondition_def wrapRuleCondFunc_def wrapRuleCallback_def)

lemma esWbDefineRule_cases:
  "(\<not> ((\<exists>d. args = [d] \<and> IsObject d) \<or> (\<exists>s d. args = [JSString s, d] \<and> IsObject d)) \<longrightarrow>
      esWbDefineRule coerce fname tb defineRule n cs args
        = (DUK_RET_ERROR, [Engine_Log_ERROR ''bad rule definition''], n, cs))
   \<and> (IsObject d \<longrightarrow>
        (case buildRule coerce n (fname @ ''/'' @ s) d of
           (Inl err, n') \<Rightarrow>
             esWbDefineRule coerce fname tb defineRule n cs [JSString s, d]
               = (DUK_RET_ERROR, [Log_bad_definition_of_rule (fname @ ''/'' @ s) err], n', cs)
         | (Inr rule, n') \<Rightarrow>
             rule_name rule = fname @ ''/'' @ s \<and>
             (case defineRule rule of
                Inl err \<Rightarrow>
                  esWbDefineRule coerce fname tb defineRule n cs [JSString s, d]
                    = (DUK_RET_ERROR, [DefineRule rule, Log_defineRule_error err], n', cs)
              | Inr ruleId \<Rightarrow>
                  esWbDefineRule coerce fname tb defineRule n cs [JSString s, d]
                    = (Return1 (JSNumber (real ruleId)), [DefineRule rule], n',
                       maybeRegisterSourceItem tb SOURCE_ITEM_RULE s cs))))
   \<and> (IsObject d \<longrightarrow>
        (case buildRule coerce n [] d of
           (Inl err, n') \<Rightarrow>
             esWbDefineRule coerce fname tb defineRule n cs [d]
               = (DUK_RET_ERROR, [Log_bad_definition_of_rule [] err], n', cs)
         | (Inr rule, n') \<Rightarrow>
             rule_name rule = [] \<and>
             (case defineRule rule of
                Inl err \<Rightarrow>
                  esWbDefineRule coerce fname tb defineRule n cs [d]
                    = (DUK_RET_ERROR, [DefineRule rule, Log_defineRule_error err], n', cs)
              | Inr ruleId \<Rightarrow>
                  esWbDefineRule coerce fname tb defineRule n cs [d]
                    = (Return1 (JSNumber (real ruleId)), [DefineRule rule], n',
                       maybeRegisterSourceItem tb SOURCE_ITEM_RULE [] cs))))"
proof (intro conjI impI)
  assume "\<not> ((\<exists>d. args = [d] \<and> IsObject d) \<or> (\<exists>s d. args = [JSString s, d] \<and> IsObject d))"
  then have "defineRule_shape fname args = None"
    using defineRule_shape_None [of fname args] by simp
  then show "esWbDefineRule coerce fname tb defineRule n cs args
        = (DUK_RET_ERROR, [Engine_Log_ERROR ''bad rule definition''], n, cs)"
    by (simp add: esWbDefineRule_def)
next
  assume d: "IsObject d"
  obtain r n' where br: "buildRule coerce n (fname @ ''/'' @ s) d = (r, n')"
    by (cases "buildRule coerce n (fname @ ''/'' @ s) d")
  show "case buildRule coerce n (fname @ ''/'' @ s) d of
           (Inl err, n') \<Rightarrow>
             esWbDefineRule coerce fname tb defineRule n cs [JSString s, d]
               = (DUK_RET_ERROR, [Log_bad_definition_of_rule (fname @ ''/'' @ s) err], n', cs)
         | (Inr rule, n') \<Rightarrow>
             rule_name rule = fname @ ''/'' @ s \<and>
             (case defineRule rule of
                Inl err \<Rightarrow>
                  esWbDefineRule coerce fname tb defineRule n cs [JSString s, d]
                    = (DUK_RET_ERROR, [DefineRule rule, Log_defineRule_error err], n', cs)
              | Inr ruleId \<Rightarrow>
                  esWbDefineRule coerce fname tb defineRule n cs [JSString s, d]
                    = (Return1 (JSNumber (real ruleId)), [DefineRule rule], n',
                       maybeRegisterSourceItem tb SOURCE_ITEM_RULE s cs))"
    using br buildRule_name [of coerce n "fname @ ''/'' @ s" d] defineRule_shape_named [OF d, of fname s]
    by (auto simp add: esWbDefineRule_def split: sum.splits)
next
  assume d: "IsObject d"
  obtain r n' where br: "buildRule coerce n [] d = (r, n')"
    by (cases "buildRule coerce n [] d")
  show "case buildRule coerce n [] d of
           (Inl err, n') \<Rightarrow>
             esWbDefineRule coerce fname tb defineRule n cs [d]
               = (DUK_RET_ERROR, [Log_bad_definition_of_rule [] err], n', cs)
         | (Inr rule, n') \<Rightarrow>
             rule_name rule = [] \<and>
             (case defineRule rule of
                Inl err \<Rightarrow>
                  esWbDefineRule coerce fname tb defineRule n cs [d]
                    = (DUK_RET_ERROR, [DefineRule rule, Log_defineRule_error err], n', cs)
              | Inr ruleId \<Rightarrow>
                  esWbDefineRule coerce fname tb defineRule n cs [d]
                    = (Return1 (JSNumber (real ruleId)), [DefineRule rule], n',
                       maybeRegisterSourceItem tb SOURCE_ITEM_RULE [] cs))"
    using br buildRule_name [of coerce n "[]" d] defineRule_shape_anonymous [OF d, of fname]
    by (auto simp add: esWbDefineRule_def split: sum.splits)
qed



lemma maybeRegisterSourceItem_None:
  "maybeRegisterSourceItem tb typ name None = None"
  by (simp add: maybeRegisterSourceItem_def)




lemma scans_OrRule_singleton: "scans (OrRule [c]) es = scans c es"
proof (induction es arbitrary: c)
  case Nil
  show ?case by simp
next
  case (Cons e es)
  obtain fired cells c' where chk: "Check e c = (fired, cells, c')"
    by (cases "Check e c")
  then have "Check e (OrRule [c]) = (fired, cells, OrRule [c'])"
    by (cases fired) simp_all
  with chk Cons.IH [of c'] show ?case
    by simp
qed

lemma buildWhenChanged_single:
  "\<not> IsArray x \<Longrightarrow> GetPropString def ''whenChanged'' = x \<Longrightarrow>
     buildWhenChangedRuleCondition def = buildSingleWhenChangedRuleCondition x"
  by (simp add: buildWhenChangedRuleCondition_def)

lemma buildWhenChanged_array1:
  "GetPropString def ''whenChanged'' = JSArray [x] aps \<Longrightarrow>
     buildWhenChangedRuleCondition def =
       (case buildSingleWhenChangedRuleCondition x of
          Inl err \<Rightarrow> Inl err
        | Inr c \<Rightarrow> Inr (OrRule [c]))"
  by (simp add: buildWhenChangedRuleCondition_def NewOrRuleCondition_def split: sum.splits)

text \<open>
  Claim C5.  Take a rule definition whose \<^verbatim>\<open>whenChanged\<close> is a string or a function
  \<open>x\<close>, and the same definition with the one-element array \<open>[x]\<close> in its place.
  Either both are refused with the same error, or the first compiles to a condition
  and the second to the \<^verbatim>\<open>Or\<close> of that condition alone, and over every sequence of
  scans the two fire in the same scans, with the same value, and record the same
  cells.
\<close>

theorem whenChanged_one_element_array:
  assumes "IsString x \<or> IsFunction x"
  shows "(\<exists>err. buildRuleCond coerce (JSObject ((''whenChanged'', x) # ps)) = Inl err
            \<and> buildRuleCond coerce (JSObject ((''whenChanged'', JSArray [x] aps) # ps)) = Inl err)
       \<or> (\<exists>c1 c2. buildRuleCond coerce (JSObject ((''whenChanged'', x) # ps)) = Inr c1
            \<and> buildRuleCond coerce (JSObject ((''whenChanged'', JSArray [x] aps) # ps)) = Inr c2
            \<and> (\<forall>es. scans c2 es = scans c1 es))"
proof -
  let ?d1 = "JSObject ((''whenChanged'', x) # ps)"
  let ?d2 = "JSObject ((''whenChanged'', JSArray [x] aps) # ps)"
  have has: "HasPropString ?d1 k = HasPropString ?d2 k" for k
    by (simp add: HasPropString_def)
  have cron: "GetPropString ?d1 ''_cron'' = GetPropString ?d2 ''_cron''"
    by (simp add: GetPropString_def)
  have w: "wrapRuleCondFunc ?d1 ''when'' = wrapRuleCondFunc ?d2 ''when''"
    "wrapRuleCondFunc ?d1 ''asSoonAs'' = wrapRuleCondFunc ?d2 ''asSoonAs''"
    by (simp_all add: wrapRuleCondFunc_def wrapRuleCallback_def GetPropString_def)
  have wc1: "buildWhenChangedRuleCondition ?d1 = buildSingleWhenChangedRuleCondition x"
    using assms by (intro buildWhenChanged_single) (auto simp add: GetPropString_def elim: IsString.elims IsFunction.elims)
  have wc2: "buildWhenChangedRuleCondition ?d2 =
       (case buildSingleWhenChangedRuleCondition x of
          Inl err \<Rightarrow> Inl err
        | Inr c \<Rightarrow> Inr (OrRule [c]))"
    by (rule buildWhenChanged_array1 [where aps = aps]) (simp add: GetPropString_def)
  show ?thesis
  proof (cases "buildSingleWhenChangedRuleCondition x")
    case (Inl err)
    with wc1 wc2 has cron w show ?thesis
      by (simp add: buildRuleCond_def Let_def)
  next
    case (Inr c)
    with wc1 wc2 has cron w scans_OrRule_singleton [of c] show ?thesis
      by (simp add: buildRuleCond_def Let_def)
  qed
qed

text \<open>
  Claim C5 at \<^verbatim>\<open>whenChanged: "wb-w1/t"\<close> and \<^verbatim>\<open>whenChanged: ["wb-w1/t"]\<close>, over two
  scans that see the value 21.5: the first fires, the second does not.
\<close>

theorem whenChanged_one_element_array_witness:
  "buildRuleCond GetString (JSObject [(''whenChanged'', JSString ''wb-w1/t''), (''then'', JSFunction 1 [])])
     = Inr (CellChanged (CellSpec ''wb-w1'' ''t'') None)
   \<and> buildRuleCond GetString
        (JSObject [(''whenChanged'', JSArray [JSString ''wb-w1/t''] []), (''then'', JSFunction 1 [])])
     = Inr (OrRule [CellChanged (CellSpec ''wb-w1'' ''t'') None])
   \<and> scans (OrRule [CellChanged (CellSpec ''wb-w1'' ''t'') None])
        [\<lparr>complete = \<lambda>c. True, cell_value = \<lambda>c. JSString ''21.5'', pushbutton = \<lambda>c. False,
          call_result = \<lambda>f. (JSUndefined, [], False)\<rparr>,
         \<lparr>complete = \<lambda>c. True, cell_value = \<lambda>c. JSString ''21.5'', pushbutton = \<lambda>c. False,
          call_result = \<lambda>f. (JSUndefined, [], False)\<rparr>]
     = [(Some (JSString ''21.5''), [CellSpec ''wb-w1'' ''t'']), (None, [CellSpec ''wb-w1'' ''t''])]"
proof -
  have b1: "buildRuleCond GetString (JSObject [(''whenChanged'', JSString ''wb-w1/t''), (''then'', JSFunction 1 [])])
     = Inr (CellChanged (CellSpec ''wb-w1'' ''t'') None)"
    by (simp add: buildRuleCond_def HasPropString_def GetPropString_def Let_def
        buildWhenChangedRuleCondition_def buildSingleWhenChangedRuleCondition_def
        SplitN_slash_2_def NewCellChangedRuleCondition_def)
  have s1: "scans (CellChanged (CellSpec ''wb-w1'' ''t'') None)
        [\<lparr>complete = \<lambda>c. True, cell_value = \<lambda>c. JSString ''21.5'', pushbutton = \<lambda>c. False,
          call_result = \<lambda>f. (JSUndefined, [], False)\<rparr>,
         \<lparr>complete = \<lambda>c. True, cell_value = \<lambda>c. JSString ''21.5'', pushbutton = \<lambda>c. False,
          call_result = \<lambda>f. (JSUndefined, [], False)\<rparr>]
     = [(Some (JSString ''21.5''), [CellSpec ''wb-w1'' ''t'']), (None, [CellSpec ''wb-w1'' ''t''])]"
    by simp
  from whenChanged_one_element_array [of "JSString ''wb-w1/t''" GetString "[(''then'', JSFunction 1 [])]" "[]"]
  obtain c1 c2 where
    "buildRuleCond GetString (JSObject [(''whenChanged'', JSString ''wb-w1/t''), (''then'', JSFunction 1 [])]) = Inr c1"
    "buildRuleCond GetString (JSObject [(''whenChanged'', JSArray [JSString ''wb-w1/t''] []), (''then'', JSFunction 1 [])]) = Inr c2"
    "\<forall>es. scans c2 es = scans c1 es"
    using b1 by auto
  moreover have b2: "buildRuleCond GetString
        (JSObject [(''whenChanged'', JSArray [JSString ''wb-w1/t''] []), (''then'', JSFunction 1 [])])
     = Inr (OrRule [CellChanged (CellSpec ''wb-w1'' ''t'') None])"
    by (simp add: buildRuleCond_def HasPropString_def GetPropString_def Let_def
        buildWhenChangedRuleCondition_def buildSingleWhenChangedRuleCondition_def
        SplitN_slash_2_def NewCellChangedRuleCondition_def NewOrRuleCondition_def)
  ultimately have "\<forall>es. scans (OrRule [CellChanged (CellSpec ''wb-w1'' ''t'') None]) es
       = scans (CellChanged (CellSpec ''wb-w1'' ''t'') None) es"
    using b1 by simp
  with b1 b2 s1 show ?thesis
    by (simp only: simp_thms)
qed

lemma reduce_hash_first:
  "i < 4 \<Longrightarrow> reduce_hash hash i = hash i XOR hash (4 + i) XOR hash (8 + i) XOR hash (12 + i)"
proof -
  have upt4: "[0 ..< 4] = [0, 1, 2, Suc 2]"
    by (simp add: upt_rec numeral_eq_Suc)
  assume "i < 4"
  then consider "i = 0" | "i = 1" | "i = 2" | "i = 3" by linarith
  then show ?thesis
    by cases (simp_all add: reduce_hash_def md5_Size_def upt4)
qed

lemma reduce_hash_take4:
  "map (reduce_hash hash) [0 ..< md5_Size div 4] =
     [hash 0 XOR hash 4 XOR hash 8 XOR hash 12, hash 1 XOR hash 5 XOR hash 9 XOR hash 13,
      hash 2 XOR hash 6 XOR hash 10 XOR hash 14, hash 3 XOR hash 7 XOR hash 11 XOR hash 15]"
proof -
  have upt4: "[0 ..< 4] = [0, 1, 2, 3]"
    by (simp add: upt_rec numeral_eq_Suc)
  show ?thesis
    using reduce_hash_first [of 0 hash] reduce_hash_first [of 1 hash]
      reduce_hash_first [of 2 hash] reduce_hash_first [of 3 hash]
    by (simp add: md5_Size_def upt4)
qed

lemma getFilenameHash_miss:
  "filenameMd5s filename = None \<Longrightarrow>
     getFilenameHash md5_Sum filenameMd5s filename =
       (folded_digest_base64url (md5_Sum filename),
        filenameMd5s(filename \<mapsto> folded_digest_base64url (md5_Sum filename)))"
  by (simp add: getFilenameHash_def folded_digest_base64url_def reduce_hash_take4 Let_def)

lemma getFilenameHash_hit:
  "filenameMd5s filename = Some result \<Longrightarrow>
     getFilenameHash md5_Sum filenameMd5s filename = (result, filenameMd5s)"
  by (simp add: getFilenameHash_def)

lemma getFilenameHash_inv:
  assumes "\<forall>f r. cache f = Some r \<longrightarrow> r = folded_digest_base64url (md5_Sum f)"
  shows "fst (getFilenameHash md5_Sum cache filename) = folded_digest_base64url (md5_Sum filename)
    \<and> snd (getFilenameHash md5_Sum cache filename) filename
          = Some (folded_digest_base64url (md5_Sum filename))
    \<and> (\<forall>f r. snd (getFilenameHash md5_Sum cache filename) f = Some r
          \<longrightarrow> r = folded_digest_base64url (md5_Sum f))"
proof (cases "cache filename")
  case None
  with assms show ?thesis
    by (simp add: getFilenameHash_miss)
next
  case (Some result)
  with assms show ?thesis
    by (simp add: getFilenameHash_hit)
qed

lemma fold_getFilenameHash_inv:
  assumes "\<forall>f r. cache f = Some r \<longrightarrow> r = folded_digest_base64url (md5_Sum f)"
  shows "\<forall>f r. fold (\<lambda>name cache. snd (getFilenameHash md5_Sum cache name)) names cache f = Some r
           \<longrightarrow> r = folded_digest_base64url (md5_Sum f)"
  using assms
proof (induction names arbitrary: cache)
  case Nil
  then show ?case by simp
next
  case (Cons name names)
  have "\<forall>f r. snd (getFilenameHash md5_Sum cache name) f = Some r
          \<longrightarrow> r = folded_digest_base64url (md5_Sum f)"
    using getFilenameHash_inv [OF Cons.prems] by blast
  from Cons.IH [OF this] show ?case by simp
qed

lemma filenameMd5s_after_inv:
  "filenameMd5s_after md5_Sum names f = Some r \<Longrightarrow> r = folded_digest_base64url (md5_Sum f)"
  using fold_getFilenameHash_inv [of Map.empty md5_Sum names]
  by (simp add: filenameMd5s_after_def)

lemma maybeExpand_module:
  assumes fn: "map_of ps ''filename'' = Some (JSString P)"
  shows "maybeExpandLocalObjectId md5_Sum (filenameMd5s_after md5_Sum names) (JSObject ps) N =
      (''_'' @ folded_digest_base64url (md5_Sum P) @ N,
       snd (getFilenameHash md5_Sum (filenameMd5s_after md5_Sum names) P))"
proof -
  let ?cache = "filenameMd5s_after md5_Sum names"
  have inv: "\<forall>f r. ?cache f = Some r \<longrightarrow> r = folded_digest_base64url (md5_Sum f)"
    using filenameMd5s_after_inv by blast
  have h: "fst (getFilenameHash md5_Sum ?cache P) = folded_digest_base64url (md5_Sum P)"
    using getFilenameHash_inv [OF inv, of P] by (rule conjunct1)
  have has: "HasPropString (JSObject ps) ''filename''"
    using fn by (simp add: HasPropString_def)
  have get: "GetPropString (JSObject ps) ''filename'' = JSString P"
    using fn by (simp add: GetPropString_def)
  have "maybeExpandLocalObjectId md5_Sum ?cache (JSObject ps) N
      = localObjectId md5_Sum ?cache P N"
    by (simp add: maybeExpandLocalObjectId_def has get)
  also have "\<dots> = (''_'' @ fst (getFilenameHash md5_Sum ?cache P) @ N,
       snd (getFilenameHash md5_Sum ?cache P))"
    by (simp add: localObjectId_def case_prod_beta)
  finally show ?thesis
    by (simp only: h)
qed

lemma maybeExpand_cached:
  assumes fn: "map_of ps ''filename'' = Some (JSString P)"
  shows "snd (maybeExpandLocalObjectId md5_Sum (filenameMd5s_after md5_Sum names) (JSObject ps) N) P
        = Some (folded_digest_base64url (md5_Sum P))"
proof -
  let ?cache = "filenameMd5s_after md5_Sum names"
  have inv: "\<forall>f r. ?cache f = Some r \<longrightarrow> r = folded_digest_base64url (md5_Sum f)"
    using filenameMd5s_after_inv by blast
  have "snd (getFilenameHash md5_Sum ?cache P) P = Some (folded_digest_base64url (md5_Sum P))"
    using getFilenameHash_inv [OF inv, of P] by blast
  then show ?thesis
    by (simp only: maybeExpand_module [OF fn] snd_conv)
qed


text \<open>
  Claim C1.  Whatever file names were hashed before, for a module object whose
  \<^verbatim>\<open>filename\<close> is the path \<open>P\<close> the object name \<open>N\<close> is rewritten to an underscore,
  the hash of \<open>P\<close> and \<open>N\<close>, where the hash is the unpadded base64url encoding of the
  four bytes the MD5 digest of \<open>P\<close> folds to under XOR; the hash is then in the cache
  under \<open>P\<close>, and a later lookup of \<open>P\<close> answers it without consulting the digest.
  \<^verbatim>\<open>module.virtualDeviceId\<close> and the name function behind
  \<^verbatim>\<open>module.PersistentStorage\<close> return that identifier.  Where \<^verbatim>\<open>this\<close> has no
  \<^verbatim>\<open>filename\<close>, as at top level, the name is kept as it is.
\<close>

theorem maybeExpandLocalObjectId_module:
  "(map_of ps ''filename'' = Some (JSString P) \<longrightarrow>
      fst (maybeExpandLocalObjectId md5_Sum (filenameMd5s_after md5_Sum names) (JSObject ps) N)
        = ''_'' @ folded_digest_base64url (md5_Sum P) @ N
      \<and> snd (maybeExpandLocalObjectId md5_Sum (filenameMd5s_after md5_Sum names) (JSObject ps) N) P
        = Some (folded_digest_base64url (md5_Sum P))
      \<and> (\<forall>other_Sum.
            getFilenameHash other_Sum
              (snd (maybeExpandLocalObjectId md5_Sum (filenameMd5s_after md5_Sum names) (JSObject ps) N)) P
            = (folded_digest_base64url (md5_Sum P),
               snd (maybeExpandLocalObjectId md5_Sum (filenameMd5s_after md5_Sum names) (JSObject ps) N))))
   \<and> (map_of ps ''filename'' = Some (JSString P) \<longrightarrow>
        fst (esVirtualDeviceId md5_Sum (filenameMd5s_after md5_Sum names) (JSObject ps) [JSString N])
          = Return1 (JSString (''_'' @ folded_digest_base64url (md5_Sum P) @ N))
        \<and> fst (esPersistentName md5_Sum True (filenameMd5s_after md5_Sum names) (JSObject ps)
                 [JSString N])
          = Return1 (JSString (''_'' @ folded_digest_base64url (md5_Sum P) @ N)))
   \<and> (\<not> (IsObject this \<and> HasPropString this ''filename'') \<longrightarrow>
        maybeExpandLocalObjectId md5_Sum cache this N = (N, cache))"
proof (intro conjI impI allI)
  assume fn: "map_of ps ''filename'' = Some (JSString P)"
  show "fst (maybeExpandLocalObjectId md5_Sum (filenameMd5s_after md5_Sum names) (JSObject ps) N)
        = ''_'' @ folded_digest_base64url (md5_Sum P) @ N"
    by (simp only: maybeExpand_module [OF fn] fst_conv)
  show "snd (maybeExpandLocalObjectId md5_Sum (filenameMd5s_after md5_Sum names) (JSObject ps) N) P
        = Some (folded_digest_base64url (md5_Sum P))"
    by (rule maybeExpand_cached [OF fn])
next
  fix other_Sum
  assume fn: "map_of ps ''filename'' = Some (JSString P)"
  show "getFilenameHash other_Sum
          (snd (maybeExpandLocalObjectId md5_Sum (filenameMd5s_after md5_Sum names) (JSObject ps) N)) P
        = (folded_digest_base64url (md5_Sum P),
           snd (maybeExpandLocalObjectId md5_Sum (filenameMd5s_after md5_Sum names) (JSObject ps) N))"
    by (simp add: getFilenameHash_def maybeExpand_cached [OF fn])
next
  assume fn: "map_of ps ''filename'' = Some (JSString P)"
  have last1: "last [JSString N] = JSString N"
    by simp
  show "fst (esVirtualDeviceId md5_Sum (filenameMd5s_after md5_Sum names) (JSObject ps) [JSString N])
          = Return1 (JSString (''_'' @ folded_digest_base64url (md5_Sum P) @ N))"
    by (simp add: esVirtualDeviceId_def maybeExpand_module [OF fn])
  show "fst (esPersistentName md5_Sum True (filenameMd5s_after md5_Sum names) (JSObject ps)
                 [JSString N])
          = Return1 (JSString (''_'' @ folded_digest_base64url (md5_Sum P) @ N))"
    by (simp add: esPersistentName_def maybeExpand_module [OF fn])
next
  assume "\<not> (IsObject this \<and> HasPropString this ''filename'')"
  then show "maybeExpandLocalObjectId md5_Sum cache this N = (N, cache)"
    by (auto simp add: maybeExpandLocalObjectId_def)
qed


lemma folded_m_js:
  "folded_digest_base64url (md5_Sum_m_js ''/etc/wb-rules-modules/m.js'') = ''O5IKsA''"
  by (simp add: folded_digest_base64url_def md5_Sum_m_js_def enc64_def encodeURL_def)

text \<open>
  Claim C1 at the module \<^verbatim>\<open>/etc/wb-rules-modules/m.js\<close> declaring \<^verbatim>\<open>vdev\<close>, and at
  a top-level declaration of \<^verbatim>\<open>vdev\<close>.
\<close>

theorem maybeExpandLocalObjectId_module_witness:
  "fst (maybeExpandLocalObjectId md5_Sum_m_js (filenameMd5s_after md5_Sum_m_js [''/x.js''])
          (JSObject [(''filename'', JSString ''/etc/wb-rules-modules/m.js'')]) ''vdev'')
     = ''_O5IKsAvdev''
   \<and> maybeExpandLocalObjectId md5_Sum_m_js Map.empty (JSObject []) ''vdev'' = (''vdev'', Map.empty)"
proof -
  note inst = maybeExpandLocalObjectId_module
      [of "[(''filename'', JSString ''/etc/wb-rules-modules/m.js'')]"
        "''/etc/wb-rules-modules/m.js''" md5_Sum_m_js "[''/x.js'']" "''vdev''" "JSObject []"
        Map.empty]
  have fn: "map_of [(''filename'', JSString ''/etc/wb-rules-modules/m.js'')] ''filename''
      = Some (JSString ''/etc/wb-rules-modules/m.js'')"
    by simp
  have top: "\<not> (IsObject (JSObject []) \<and> HasPropString (JSObject []) ''filename'')"
    by (simp add: HasPropString_def)
  have "fst (maybeExpandLocalObjectId md5_Sum_m_js
          (filenameMd5s_after md5_Sum_m_js [''/x.js''])
          (JSObject [(''filename'', JSString ''/etc/wb-rules-modules/m.js'')]) ''vdev'')
     = ''_'' @ folded_digest_base64url (md5_Sum_m_js ''/etc/wb-rules-modules/m.js'') @ ''vdev''"
    by (rule inst [THEN conjunct1, THEN mp, OF fn, THEN conjunct1])
  then have named: "fst (maybeExpandLocalObjectId md5_Sum_m_js
          (filenameMd5s_after md5_Sum_m_js [''/x.js''])
          (JSObject [(''filename'', JSString ''/etc/wb-rules-modules/m.js'')]) ''vdev'')
     = ''_O5IKsAvdev''"
    by (simp only: folded_m_js append.simps)
  have "maybeExpandLocalObjectId md5_Sum_m_js Map.empty (JSObject []) ''vdev''
      = (''vdev'', Map.empty)"
    by (rule inst [THEN conjunct2, THEN conjunct2, THEN mp, OF top])
  with named show ?thesis
    by (rule conjI)
qed

end
